theory Spec2Isabelle
  imports Complex_Main "HOL-Library.Sublist" "HOL-Library.Log_Nat"
begin

section \<open>The REST plugin of tensei: query parsing, page metadata, generated routes\<close>

text \<open>
  The development embeds the class \<open>Rest\<close> of the REST plugin: the parsers of the query
  string (\<open>parseQueryToFindOptions\<close>, the decoder of \<open>parseQueryToWhereOptions\<close>), the page
  metadata (\<open>getPageMetaFromFindOptions\<close>), the documentation parameters of a field
  (\<open>getFieldDocsParameters\<close>) and the route generator (\<open>extendRoutes\<close>) with its seven
  handlers.

  JavaScript numbers are IEEE 754 doubles. A finite double is modelled by the rational
  it is; every arithmetic operation and every conversion from a string computes the exact
  result and rounds it to the nearest double, ties to even, with overflow to an infinity.
  The sign of zero is not modelled: \<open>-0\<close> and \<open>0\<close> are one value, which no expression of
  the plugin tells apart. Strings are lists of 8-bit characters.
\<close>

subsection \<open>JavaScript numbers\<close>

datatype jsnum = Fin rat | NaN | PInf | NInf

text \<open>Rounding to the nearest integer, ties to the even one.\<close>

definition round_half_even :: "rat \<Rightarrow> int" where
  "round_half_even m =
     (let f = \<lfloor>m\<rfloor>; d = m - of_int f
      in if d < 1 / 2 then f
         else if 1 / 2 < d then f + 1
         else if even f then f else f + 1)"

text \<open>
  The binary exponent \<open>e\<close> of a positive rational \<open>x\<close>, with \<open>2 powi e \<le> x < 2 powi (e + 1)\<close>:
  the difference of the bit lengths of numerator and denominator, or one less.
\<close>

definition exponent2 :: "rat \<Rightarrow> int" where
  "exponent2 x =
     (let (a, b) = quotient_of x; c = bitlen a - bitlen b
      in if 2 powi c \<le> x then c else c - 1)"

text \<open>
  The nearest double to a positive rational, were there no largest double. A double with
  exponent \<open>e\<close> is a multiple of \<open>2 powi (e - 52)\<close>; the exponent is not below \<open>-1022\<close>, where
  the subnormal numbers begin.
\<close>

definition round64_pos :: "rat \<Rightarrow> rat" where
  "round64_pos x =
     (let e = max (exponent2 x) (- 1022); q = 2 powi (e - 52)
      in of_int (round_half_even (x / q)) * q)"

text \<open>
  The double nearest to a rational, ties to even; an infinity from \<open>2 powi 1024\<close> on.
\<close>

definition round64 :: "rat \<Rightarrow> jsnum" where
  "round64 x =
     (if x = 0 then Fin 0
      else
        let y = round64_pos \<bar>x\<bar>
        in if 2 powi 1024 \<le> y then (if 0 < x then PInf else NInf)
           else Fin (if 0 < x then y else - y))"

fun js_neg :: "jsnum \<Rightarrow> jsnum" where
  "js_neg (Fin a) = Fin (- a)"
| "js_neg NaN = NaN"
| "js_neg PInf = NInf"
| "js_neg NInf = PInf"

text \<open>An infinity of the sign of \<open>a\<close>; \<open>NaN\<close> when \<open>a\<close> is zero.\<close>

definition signed_inf :: "rat \<Rightarrow> jsnum" where
  "signed_inf a = (if a = 0 then NaN else if 0 < a then PInf else NInf)"

fun js_add :: "jsnum \<Rightarrow> jsnum \<Rightarrow> jsnum" where
  "js_add (Fin a) (Fin b) = round64 (a + b)"
| "js_add NaN _ = NaN"
| "js_add _ NaN = NaN"
| "js_add PInf NInf = NaN"
| "js_add NInf PInf = NaN"
| "js_add PInf _ = PInf"
| "js_add _ PInf = PInf"
| "js_add NInf _ = NInf"
| "js_add _ NInf = NInf"

definition js_sub :: "jsnum \<Rightarrow> jsnum \<Rightarrow> jsnum" where
  "js_sub x y = js_add x (js_neg y)"

fun js_mul :: "jsnum \<Rightarrow> jsnum \<Rightarrow> jsnum" where
  "js_mul (Fin a) (Fin b) = round64 (a * b)"
| "js_mul NaN _ = NaN"
| "js_mul _ NaN = NaN"
| "js_mul (Fin a) PInf = signed_inf a"
| "js_mul (Fin a) NInf = signed_inf (- a)"
| "js_mul PInf (Fin b) = signed_inf b"
| "js_mul NInf (Fin b) = signed_inf (- b)"
| "js_mul PInf PInf = PInf"
| "js_mul PInf NInf = NInf"
| "js_mul NInf PInf = NInf"
| "js_mul NInf NInf = PInf"

fun js_div :: "jsnum \<Rightarrow> jsnum \<Rightarrow> jsnum" where
  "js_div (Fin a) (Fin b) = (if b = 0 then signed_inf a else round64 (a / b))"
| "js_div NaN _ = NaN"
| "js_div _ NaN = NaN"
| "js_div (Fin a) PInf = Fin 0"
| "js_div (Fin a) NInf = Fin 0"
| "js_div PInf (Fin b) = (if 0 \<le> b then PInf else NInf)"
| "js_div NInf (Fin b) = (if 0 \<le> b then NInf else PInf)"
| "js_div PInf PInf = NaN"
| "js_div PInf NInf = NaN"
| "js_div NInf PInf = NaN"
| "js_div NInf NInf = NaN"

text \<open>\<open>Math.ceil\<close>. The ceiling of a double is a double.\<close>

fun js_ceil :: "jsnum \<Rightarrow> jsnum" where
  "js_ceil (Fin a) = Fin (of_int \<lceil>a\<rceil>)"
| "js_ceil x = x"

text \<open>
  The relational comparison \<open>x < y\<close> of two numbers: \<open>None\<close> is the undefined result
  that a \<open>NaN\<close> operand gives.
\<close>

fun js_lt :: "jsnum \<Rightarrow> jsnum \<Rightarrow> bool option" where
  "js_lt NaN _ = None"
| "js_lt _ NaN = None"
| "js_lt (Fin a) (Fin b) = Some (a < b)"
| "js_lt NInf NInf = Some False"
| "js_lt NInf _ = Some True"
| "js_lt _ NInf = Some False"
| "js_lt PInf _ = Some False"
| "js_lt _ PInf = Some True"

text \<open>\<open>x >= y\<close> is false when \<open>x < y\<close> is true or undefined.\<close>

definition js_ge :: "jsnum \<Rightarrow> jsnum \<Rightarrow> bool" where
  "js_ge x y = (js_lt x y = Some False)"

text \<open>\<open>ToBoolean\<close> of a number.\<close>

definition truthy_num :: "jsnum \<Rightarrow> bool" where
  "truthy_num x = (x \<noteq> Fin 0 \<and> x \<noteq> NaN)"

subsection \<open>Reading numbers from strings\<close>

definition is_digit :: "char \<Rightarrow> bool" where
  "is_digit c = (c \<in> set ''0123456789'')"

definition is_hex_digit :: "char \<Rightarrow> bool" where
  "is_hex_digit c = (c \<in> set ''0123456789abcdefABCDEF'')"

definition is_octal_digit :: "char \<Rightarrow> bool" where
  "is_octal_digit c = (c \<in> set ''01234567'')"

definition is_binary_digit :: "char \<Rightarrow> bool" where
  "is_binary_digit c = (c \<in> set ''01'')"

text \<open>The value of a digit of any radix up to sixteen.\<close>

definition digit_val :: "char \<Rightarrow> nat" where
  "digit_val c =
     (if is_digit c then of_char c - 48
      else if c \<in> set ''abcdef'' then of_char c - 87 else of_char c - 55)"

definition radix_value :: "nat \<Rightarrow> string \<Rightarrow> nat" where
  "radix_value r ds = foldl (\<lambda>a c. r * a + digit_val c) 0 ds"

text \<open>
  White space and line terminators of the language that fit in eight bits: TAB, LF, VT,
  FF, CR, SP and NBSP.
\<close>

definition is_space :: "char \<Rightarrow> bool" where
  "is_space c = ((of_char c :: nat) \<in> {9, 10, 11, 12, 13, 32, 160})"

definition trim :: "string \<Rightarrow> string" where
  "trim s = rev (dropWhile is_space (rev (dropWhile is_space s)))"

text \<open>
  An optional exponent part \<open>e\<close>, \<open>e+\<close> or \<open>e-\<close> followed by digits, up to the end of the
  string: its value, or \<open>None\<close> when the rest of the string is no exponent part.
\<close>

definition exponent_part :: "string \<Rightarrow> int option" where
  "exponent_part s =
     (case s of
        [] \<Rightarrow> Some 0
      | c # t \<Rightarrow>
          if c = CHR ''e'' \<or> c = CHR ''E'' then
            (let (neg, ds) =
               (case t of
                  [] \<Rightarrow> (False, [])
                | d # u \<Rightarrow> if d = CHR ''-'' then (True, u)
                           else if d = CHR ''+'' then (False, u) else (False, t))
             in if ds \<noteq> [] \<and> list_all is_digit ds
                then Some (if neg then - int (radix_value 10 ds) else int (radix_value 10 ds))
                else None)
          else None)"

definition scale10 :: "rat \<Rightarrow> int \<Rightarrow> rat" where
  "scale10 m e = (if 0 \<le> e then m * 10 ^ nat e else m / 10 ^ nat (- e))"

text \<open>
  The exact value of the decimal literal with integer digits \<open>ip\<close> and fraction digits
  \<open>fp\<close>.
\<close>

definition decimal_value :: "string \<Rightarrow> string \<Rightarrow> rat" where
  "decimal_value ip fp = of_nat (radix_value 10 ip) + of_nat (radix_value 10 fp) / 10 ^ length fp"

text \<open>
  \<open>StrUnsignedDecimalLiteral\<close>: \<open>Infinity\<close>, or digits with an optional fraction and an
  optional exponent, with a digit on one side of the point at least; the value of the
  literal is rounded to a double. \<open>NaN\<close> when the string is no such literal.
\<close>

definition unsigned_decimal :: "string \<Rightarrow> jsnum" where
  "unsigned_decimal s =
     (if s = ''Infinity'' then PInf
      else
        let ip = takeWhile is_digit s;
            r1 = dropWhile is_digit s;
            (fp, r2) = (case r1 of
                          [] \<Rightarrow> ([], [])
                        | c # t \<Rightarrow> if c = CHR ''.'' then (takeWhile is_digit t, dropWhile is_digit t)
                                   else ([], r1))
        in if ip = [] \<and> fp = [] then NaN
           else (case exponent_part r2 of
                   None \<Rightarrow> NaN
                 | Some e \<Rightarrow> round64 (scale10 (decimal_value ip fp) e)))"

definition non_decimal :: "(char \<Rightarrow> bool) \<Rightarrow> nat \<Rightarrow> string \<Rightarrow> jsnum" where
  "non_decimal ok r ds =
     (if ds \<noteq> [] \<and> list_all ok ds then round64 (of_nat (radix_value r ds)) else NaN)"

text \<open>
  \<open>ToNumber\<close> of a string, which the operators \<open>>=\<close> and \<open>-\<close> apply to \<open>query.page\<close>: the
  trimmed string is empty (zero), a hexadecimal, octal or binary integer, or a signed
  decimal literal; every other string is \<open>NaN\<close>.
\<close>

definition to_number :: "string \<Rightarrow> jsnum" where
  "to_number str =
     (let s = trim str in
      if s = [] then Fin 0
      else if take 2 s = ''0x'' \<or> take 2 s = ''0X'' then non_decimal is_hex_digit 16 (drop 2 s)
      else if take 2 s = ''0o'' \<or> take 2 s = ''0O'' then non_decimal is_octal_digit 8 (drop 2 s)
      else if take 2 s = ''0b'' \<or> take 2 s = ''0B'' then non_decimal is_binary_digit 2 (drop 2 s)
      else if hd s = CHR ''+'' then unsigned_decimal (tl s)
      else if hd s = CHR ''-'' then js_neg (unsigned_decimal (tl s))
      else unsigned_decimal s)"

text \<open>
  \<open>parseInt\<close> with no radix: leading white space is skipped, then a sign, then \<open>0x\<close> or
  \<open>0X\<close> selects radix sixteen, and the longest run of digits is read and its value
  rounded to a double; \<open>NaN\<close> when that run is empty.
\<close>

definition parseInt :: "string \<Rightarrow> jsnum" where
  "parseInt str =
     (let s = dropWhile is_space str;
          (neg, s1) = (case s of
                         [] \<Rightarrow> (False, [])
                       | c # t \<Rightarrow> if c = CHR ''-'' then (True, t)
                                  else if c = CHR ''+'' then (False, t) else (False, s));
          hex = (take 2 s1 = ''0x'' \<or> take 2 s1 = ''0X'');
          z = (if hex then takeWhile is_hex_digit (drop 2 s1) else takeWhile is_digit s1);
          v = (of_nat (radix_value (if hex then 16 else 10) z) :: rat)
      in if z = [] then NaN else round64 (if neg then - v else v))"

text \<open>
  \<open>parseFloat\<close> on a string that the decoder's pattern has accepted: digits, or optional
  digits, a point and digits; the double nearest to the decimal value.
\<close>

definition parseFloat :: "string \<Rightarrow> jsnum" where
  "parseFloat s =
     (let ip = takeWhile is_digit s; r = dropWhile is_digit s
      in round64 (decimal_value ip (takeWhile is_digit (drop 1 r))))"

subsection \<open>Values\<close>

text \<open>
  The values that requests, entities and responses hold. \<open>VNative\<close> stands for a function
  or object of the language's own, named by the property of \<open>Object.prototype\<close> it is
  read from.
\<close>

datatype val =
    VUndefined
  | VNull
  | VBool bool
  | VNum jsnum
  | VStr string
  | VArr "val list"
  | VObj "(string \<times> val) list"
  | VNative string

fun truthy :: "val \<Rightarrow> bool" where
  "truthy VUndefined = False"
| "truthy VNull = False"
| "truthy (VBool b) = b"
| "truthy (VNum n) = truthy_num n"
| "truthy (VStr s) = (s \<noteq> [])"
| "truthy (VArr _) = True"
| "truthy (VObj _) = True"
| "truthy (VNative _) = True"

text \<open>The properties every object literal inherits from \<open>Object.prototype\<close>.\<close>

definition object_prototype_names :: "string list" where
  "object_prototype_names =
     [''constructor'', ''__defineGetter__'', ''__defineSetter__'', ''hasOwnProperty'',
      ''__lookupGetter__'', ''__lookupSetter__'', ''isPrototypeOf'', ''propertyIsEnumerable'',
      ''toString'', ''valueOf'', ''__proto__'', ''toLocaleString'']"

text \<open>The operator \<open>in\<close> on an object literal: own and inherited properties.\<close>

definition has_property :: "(string \<times> val) list \<Rightarrow> string \<Rightarrow> bool" where
  "has_property obj k = (k \<in> set (map fst obj) \<or> k \<in> set object_prototype_names)"

definition get_property :: "(string \<times> val) list \<Rightarrow> string \<Rightarrow> val" where
  "get_property obj k =
     (case map_of obj k of
        Some v \<Rightarrow> v
      | None \<Rightarrow> if k \<in> set object_prototype_names then VNative k else VUndefined)"

subsection \<open>The decoder of \<open>parseQueryToWhereOptions\<close>\<close>

text \<open>The pattern \<open>/^(\d+|\d*\.\d+)$/\<close>.\<close>

definition matches_numeric :: "string \<Rightarrow> bool" where
  "matches_numeric v =
     (let ip = takeWhile is_digit v; r = dropWhile is_digit v
      in (case r of
            [] \<Rightarrow> ip \<noteq> []
          | c # fp \<Rightarrow> c = CHR ''.'' \<and> fp \<noteq> [] \<and> list_all is_digit fp))"

text \<open>\<open>value.replace(/where/, '')\<close>: the first occurrence of \<open>where\<close> is removed.\<close>

fun replace_where :: "string \<Rightarrow> string" where
  "replace_where [] = []"
| "replace_where (c # cs) =
     (if take 5 (c # cs) = ''where'' then drop 5 (c # cs) else c # replace_where cs)"

text \<open>The object literal \<open>keywords\<close> of the decoder.\<close>

definition keywords_obj :: "(string \<times> val) list" where
  "keywords_obj =
     [(''true'', VBool True), (''false'', VBool False), (''null'', VNull),
      (''undefined'', VUndefined)]"

definition decoder :: "string \<Rightarrow> val" where
  "decoder v =
     (if matches_numeric v then VNum (parseFloat v)
      else
        let v' = replace_where v
        in if has_property keywords_obj v' then get_property keywords_obj v' else VStr v')"

subsection \<open>Queries, resources and find options\<close>

text \<open>
  The query of a request, as the keys the plugin reads. A parameter is a string, or absent;
  \<open>where\<close> is a nested object.
\<close>

record query =
  q_page :: "string option"
  q_per_page :: "string option"
  q_populate :: "string option"
  q_fields :: "string option"
  q_filters :: "string option"
  q_sort :: "string option"
  q_where :: "val option"

text \<open>A parameter that is present and truthy, that is, not the empty string.\<close>

definition given :: "string option \<Rightarrow> string option" where
  "given p = (case p of None \<Rightarrow> None | Some s \<Rightarrow> if s = [] then None else Some s)"

datatype reference = OneToOne | OneToMany | ManyToMany | ManyToOne

text \<open>
  A field: \<open>property.primary\<close>, \<open>property.nullable\<close>, \<open>relatedProperty.reference\<close>,
  \<open>databaseField\<close> and \<open>helpText\<close>.
\<close>

record field =
  primary :: bool
  nullable :: bool
  related_reference :: "reference option"
  databaseField :: string
  helpText :: string

text \<open>The \<open>data\<close> of a resource.\<close>

record resource =
  slugSingular :: string
  slugPlural :: string
  pascalCaseName :: string
  snakeCaseName :: string
  r_fields :: "field list"
  perPageOptions :: "jsnum list"


text \<open>What \<open>limit\<close> and \<open>offset\<close> can hold: a number or \<open>undefined\<close>.\<close>

datatype optnum = Undefined | Number jsnum

text \<open>
  Find options. \<open>None\<close> is a property that was never assigned. The order of the keys of
  \<open>orderBy\<close> is not modelled; a direction is absent when the sorter has no colon.
\<close>

record find_options =
  fo_limit :: "optnum option"
  fo_offset :: "optnum option"
  fo_populate :: "string list option"
  fo_fields :: "string list option"
  fo_filters :: "string option"
  fo_orderBy :: "(string \<rightharpoonup> string option) option"

definition no_find_options :: find_options where
  "no_find_options =
     \<lparr>fo_limit = None, fo_offset = None, fo_populate = None, fo_fields = None,
      fo_filters = None, fo_orderBy = None\<rparr>"

text \<open>Reading a property that may be unassigned.\<close>

definition read_num :: "optnum option \<Rightarrow> optnum" where
  "read_num p = (case p of None \<Rightarrow> Undefined | Some v \<Rightarrow> v)"

fun truthy_optnum :: "optnum \<Rightarrow> bool" where
  "truthy_optnum Undefined = False"
| "truthy_optnum (Number n) = truthy_num n"

text \<open>\<open>ToNumber\<close>.\<close>

fun num_of :: "optnum \<Rightarrow> jsnum" where
  "num_of Undefined = NaN"
| "num_of (Number n) = n"

text \<open>\<open>String.prototype.split\<close> with a separator of one character.\<close>

fun split_on :: "char \<Rightarrow> string \<Rightarrow> string list" where
  "split_on d [] = [[]]"
| "split_on d (c # cs) =
     (if c = d then [] # split_on d cs
      else (case split_on d cs of [] \<Rightarrow> [[c]] | r # rs \<Rightarrow> (c # r) # rs))"

text \<open>\<open>perPageOptions[0]\<close>.\<close>

definition first_per_page :: "resource \<Rightarrow> optnum" where
  "first_per_page r = (case perPageOptions r of [] \<Rightarrow> Undefined | n # _ \<Rightarrow> Number n)"

text \<open>\<open>parseInt(query.per_page) || resource.data.perPageOptions[0]\<close>.\<close>

definition resolve_limit :: "query \<Rightarrow> resource \<Rightarrow> optnum" where
  "resolve_limit q r =
     (let n = parseInt (case q_per_page q of None \<Rightarrow> ''undefined'' | Some s \<Rightarrow> s)
      in if truthy_num n then Number n else first_per_page r)"

text \<open>One step of \<open>sorters.forEach\<close>: the sorter \<open>field:direction\<close> is added to \<open>orderBy\<close>.\<close>

definition add_sorter :: "find_options \<Rightarrow> string \<Rightarrow> find_options" where
  "add_sorter fo sorter =
     (let old = (case fo_orderBy fo of None \<Rightarrow> Map.empty | Some m \<Rightarrow> m);
          (fld, direction) =
            (case split_on CHR '':'' sorter of
               [] \<Rightarrow> (''undefined'', None)
             | [f] \<Rightarrow> (f, None)
             | f # d # _ \<Rightarrow> (f, Some d))
      in fo\<lparr>fo_orderBy := Some (old(fld \<mapsto> direction))\<rparr>)"

definition parseQueryToFindOptions :: "query \<Rightarrow> resource \<Rightarrow> find_options" where
  "parseQueryToFindOptions q r =
     (let fo1 =
            (case given (q_page q) of
               None \<Rightarrow> no_find_options
             | Some p \<Rightarrow>
                 if p \<noteq> ''-1'' then
                   (let lim = resolve_limit q r
                    in no_find_options
                         \<lparr>fo_limit := Some lim,
                          fo_offset :=
                            Some (Number
                              (if js_ge (to_number p) (Fin 1)
                               then js_mul (js_sub (to_number p) (Fin 1)) (num_of lim)
                               else Fin 0))\<rparr>)
                 else no_find_options);
          fo2 = (case given (q_populate q) of
                   None \<Rightarrow> fo1
                 | Some s \<Rightarrow> fo1\<lparr>fo_populate := Some (split_on CHR '','' s)\<rparr>);
          fo3 = (case given (q_fields q) of
                   None \<Rightarrow> fo2
                 | Some s \<Rightarrow> fo2\<lparr>fo_fields := Some (split_on CHR '','' s)\<rparr>);
          fo4 = (case given (q_filters q) of
                   None \<Rightarrow> fo3
                 | Some s \<Rightarrow> fo3\<lparr>fo_filters := Some s\<rparr>)
      in (case given (q_sort q) of
            None \<Rightarrow> fo4
          | Some s \<Rightarrow> foldl add_sorter fo4 (split_on CHR '','' s)))"

subsection \<open>Page metadata\<close>

record page_meta =
  total_count :: jsnum
  page :: "jsnum option"
  per_page :: "jsnum option"
  page_count :: jsnum

text \<open>
  \<open>null\<close> is \<open>None\<close>. The condition of \<open>page\<close> is
  \<open>findOptions.offset || (findOptions.offset === 0 && findOptions.limit)\<close>.
\<close>

definition getPageMetaFromFindOptions :: "jsnum \<Rightarrow> find_options \<Rightarrow> page_meta" where
  "getPageMetaFromFindOptions tot fo =
     (let off = read_num (fo_offset fo); lim = read_num (fo_limit fo) in
      \<lparr>total_count = tot,
       page =
         (if truthy_optnum off \<or> (off = Number (Fin 0) \<and> truthy_optnum lim)
          then Some (js_ceil (js_div (js_add (num_of off) (Fin 1)) (num_of lim)))
          else None),
       per_page = (if truthy_optnum lim then Some (num_of lim) else None),
       page_count = js_ceil (js_div tot (num_of lim))\<rparr>)"

subsection \<open>The where options\<close>

text \<open>
  \<open>parseQueryToWhereOptions\<close> writes \<open>query.where\<close> out with \<open>qs.stringify\<close> and reads it
  back with \<open>qs.parse\<close> under the decoder. The library \<open>qs\<close> is the parameter \<open>reparse\<close>,
  which takes the decoder and the object.
\<close>

type_synonym qs = "(string \<Rightarrow> val) \<Rightarrow> val \<Rightarrow> val"

definition parseQueryToWhereOptions :: "qs \<Rightarrow> query \<Rightarrow> val" where
  "parseQueryToWhereOptions reparse q =
     (case q_where q of
        None \<Rightarrow> VObj []
      | Some w \<Rightarrow> if truthy w then reparse decoder w else VObj [])"

subsection \<open>Documentation of a field\<close>

datatype schema = Array_of_strings

record docs_parameter =
  dp_required :: bool
  dp_name :: string
  dp_in :: string
  dp_description :: string
  dp_schema :: "schema option"

definition getFieldDocsParameters :: "field \<Rightarrow> resource list \<Rightarrow> string \<Rightarrow> docs_parameter" where
  "getFieldDocsParameters f resources location =
     (let properties =
            \<lparr>dp_required = (\<not> nullable f \<and> related_reference f = None),
             dp_name = databaseField f,
             dp_in = location,
             dp_description = helpText f,
             dp_schema = None\<rparr>
      in if related_reference f = Some ManyToMany \<or> related_reference f = Some OneToMany
         then properties
                \<lparr>dp_schema := Some Array_of_strings,
                 dp_description :=
                   (if helpText f \<noteq> [] then helpText f
                    else ''This should be an array of IDs of '' @ databaseField f
                         @ '' to relate to this entity.'')\<rparr>
         else properties)"

subsection \<open>The entity manager\<close>

text \<open>
  An entity is an object; a thrown value is known by its \<open>name\<close>, if it has one, and its
  message.
\<close>

type_synonym entity = "(string \<times> val) list"

datatype js_error = JsError (err_name: "string option") (err_message: string)

text \<open>
  A promise holds the outcome that awaiting it gives: a rejection or a value. As an
  object it is truthy, whatever it holds.
\<close>

datatype 'a promise = Promise "js_error + 'a"

fun await :: "'a promise \<Rightarrow> js_error + 'a" where
  "await (Promise r) = r"

definition truthy_promise :: "'a promise \<Rightarrow> bool" where
  "truthy_promise p = True"

text \<open>\<open>!entity\<close> on the awaited result of \<open>findOne\<close>, an entity or \<open>null\<close>.\<close>

definition truthy_entity :: "entity option \<Rightarrow> bool" where
  "truthy_entity e = (e \<noteq> None)"

text \<open>
  What a handler hands to \<open>assign\<close>, \<open>persistAndFlush\<close>, \<open>removeAndFlush\<close> and the
  response: an entity, an array of entities, or the promise of a lookup that was not
  awaited.
\<close>

datatype target =
    Entity entity
  | Entities "entity list"
  | Pending "entity option promise"

text \<open>
  The entity manager of the ORM is a parameter of every handler: the outcome of each call
  a handler can make, for the database as the request finds it. \<open>Inl\<close> is a thrown error or
  a rejected promise. \<open>findOne\<close> and \<open>removeAndFlush\<close> also stand for the methods of the
  repository of a model, which \<open>getRepository\<close> returns. \<open>populate\<close> and \<open>assign\<close> change
  their first argument in place; here they return the changed object.
\<close>

record manager =
  create :: "string \<Rightarrow> val \<Rightarrow> js_error + entity"
  persistAndFlush :: "target \<Rightarrow> js_error + unit"
  findAndCount :: "string \<Rightarrow> val \<Rightarrow> find_options \<Rightarrow> js_error + (entity list \<times> jsnum)"
  findOne :: "string \<Rightarrow> string \<Rightarrow> find_options option \<Rightarrow> js_error + entity option"
  populate :: "entity option \<Rightarrow> string \<Rightarrow> val \<Rightarrow> js_error + entity option"
  assign :: "target \<Rightarrow> val \<Rightarrow> js_error + target"
  removeAndFlush :: "string \<Rightarrow> target \<Rightarrow> js_error + unit"

text \<open>The calls a handler makes, in order.\<close>

datatype orm_call =
    Create string val
  | PersistAndFlush target
  | FindAndCount string val
  | FindOne string string
  | Populate "entity option" string val
  | Assign target val
  | GetRepository string
  | RemoveAndFlush string target

subsection \<open>Requests and responses\<close>

record request =
  params_id :: string
  params_related_resource :: string
  rq_body :: val
  rq_query :: query

text \<open>
  The body of a response: \<open>Json\<close> is \<open>response.json\<close>, the others are the bodies of the
  response formatter: data with optional page metadata, a value, an error message, an
  error object with a message, and the empty object of \<open>noContent\<close>.
\<close>

datatype body =
    Json target
  | Data target "page_meta option"
  | Data_value val
  | Error_message string
  | Error_object string
  | No_content

text \<open>
  A handler answers with a status and a body, or its promise is rejected and the error
  goes to the error handling of the server.
\<close>

datatype reply = Reply nat body | Rejected js_error

record outcome =
  reply :: reply
  calls :: "orm_call list"

type_synonym handler = "manager \<Rightarrow> request \<Rightarrow> outcome"

definition type_error :: js_error where
  "type_error = JsError (Some ''TypeError'') []"

subsection \<open>The handlers of the routes\<close>

definition insert_handler :: "string \<Rightarrow> handler" where
  "insert_handler modelName mgr rq =
     (case create mgr modelName (rq_body rq) of
        Inl e \<Rightarrow> \<lparr>reply = Rejected e, calls = [Create modelName (rq_body rq)]\<rparr>
      | Inr entity \<Rightarrow>
          (case persistAndFlush mgr (Entity entity) of
             Inl e \<Rightarrow>
               \<lparr>reply = Rejected e,
                calls = [Create modelName (rq_body rq), PersistAndFlush (Entity entity)]\<rparr>
           | Inr _ \<Rightarrow>
               \<lparr>reply = Reply 201 (Json (Entity entity)),
                calls = [Create modelName (rq_body rq), PersistAndFlush (Entity entity)]\<rparr>))"

text \<open>\<open>body.objects || []\<close>: reading a property of \<open>undefined\<close> or \<open>null\<close> throws.\<close>

definition body_objects :: "val \<Rightarrow> js_error + val" where
  "body_objects b =
     (case b of
        VUndefined \<Rightarrow> Inl type_error
      | VNull \<Rightarrow> Inl type_error
      | VObj kvs \<Rightarrow> Inr (let v = get_property kvs ''objects'' in if truthy v then v else VArr [])
      | _ \<Rightarrow> Inr (VArr []))"

text \<open>
  \<open>.map(object => manager.create(modelName, object))\<close>: the entities made so far, the calls
  made, and the error of the call that threw, if one did.
\<close>

fun create_all :: "manager \<Rightarrow> string \<Rightarrow> val list \<Rightarrow> (js_error + entity list) \<times> orm_call list" where
  "create_all mgr modelName [] = (Inr [], [])"
| "create_all mgr modelName (object # objects) =
     (case create mgr modelName object of
        Inl e \<Rightarrow> (Inl e, [Create modelName object])
      | Inr entity \<Rightarrow>
          (case create_all mgr modelName objects of
             (Inl e, cs) \<Rightarrow> (Inl e, Create modelName object # cs)
           | (Inr entities, cs) \<Rightarrow> (Inr (entity # entities), Create modelName object # cs)))"

definition insert_multiple_handler :: "string \<Rightarrow> handler" where
  "insert_multiple_handler modelName mgr rq =
     (case body_objects (rq_body rq) of
        Inl e \<Rightarrow> \<lparr>reply = Rejected e, calls = []\<rparr>
      | Inr (VArr objects) \<Rightarrow>
          (case create_all mgr modelName objects of
             (Inl e, cs) \<Rightarrow> \<lparr>reply = Rejected e, calls = cs\<rparr>
           | (Inr entities, cs) \<Rightarrow>
               (case persistAndFlush mgr (Entities entities) of
                  Inl e \<Rightarrow>
                    \<lparr>reply = Rejected e, calls = cs @ [PersistAndFlush (Entities entities)]\<rparr>
                | Inr _ \<Rightarrow>
                    \<lparr>reply = Reply 201 (Data (Entities entities) None),
                     calls = cs @ [PersistAndFlush (Entities entities)]\<rparr>))
      | Inr _ \<Rightarrow> \<lparr>reply = Rejected type_error, calls = []\<rparr>)"

definition fetch_multiple_handler :: "qs \<Rightarrow> resource \<Rightarrow> handler" where
  "fetch_multiple_handler reparse r mgr rq =
     (let findOptions = parseQueryToFindOptions (rq_query rq) r;
          whereOptions = parseQueryToWhereOptions reparse (rq_query rq);
          cs = [FindAndCount (pascalCaseName r) whereOptions]
      in case findAndCount mgr (pascalCaseName r) whereOptions findOptions of
           Inl e \<Rightarrow> \<lparr>reply = Rejected e, calls = cs\<rparr>
         | Inr (entities, tot) \<Rightarrow>
             \<lparr>reply =
                Reply 200
                  (Data (Entities entities) (Some (getPageMetaFromFindOptions tot findOptions))),
              calls = cs\<rparr>)"

definition fetch_single_handler :: "resource \<Rightarrow> handler" where
  "fetch_single_handler r mgr rq =
     (let findOptions = parseQueryToFindOptions (rq_query rq) r;
          cs = [FindOne (pascalCaseName r) (params_id rq)]
      in case findOne mgr (pascalCaseName r) (params_id rq) (Some findOptions) of
           Inl e \<Rightarrow> \<lparr>reply = Rejected e, calls = cs\<rparr>
         | Inr entity \<Rightarrow>
             (case entity of
                None \<Rightarrow>
                  \<lparr>reply =
                     Reply 404
                       (Error_message
                          (''could not find '' @ pascalCaseName r @ '' with ID '' @ params_id rq)),
                   calls = cs\<rparr>
              | Some e \<Rightarrow> \<lparr>reply = Reply 200 (Data (Entity e) None), calls = cs\<rparr>))"

text \<open>\<open>entity?.[name]\<close>.\<close>

definition optional_property :: "entity option \<Rightarrow> string \<Rightarrow> val" where
  "optional_property entity name =
     (case entity of None \<Rightarrow> VUndefined | Some e \<Rightarrow> get_property e name)"

text \<open>The \<open>catch\<close> block of the relation handler.\<close>

definition relation_failure :: "string \<Rightarrow> string \<Rightarrow> js_error \<Rightarrow> reply" where
  "relation_failure modelName related e =
     (if err_name e = Some ''ValidationError''
      then Reply 404
             (Error_message
                (''The '' @ modelName @ '' model does not have a '' @ [CHR 0x27] @ related
                 @ [CHR 0x27] @ '' property''))
      else Reply 400 (Error_object ''The request was not understood.''))"

definition fetch_relations_handler :: "qs \<Rightarrow> resource \<Rightarrow> handler" where
  "fetch_relations_handler reparse r mgr rq =
     (let whereOptions = parseQueryToWhereOptions reparse (rq_query rq);
          modelName = pascalCaseName r;
          related = params_related_resource rq;
          c1 = FindOne modelName (params_id rq)
      in case findOne mgr modelName (params_id rq) None of
           Inl e \<Rightarrow> \<lparr>reply = relation_failure modelName related e, calls = [c1]\<rparr>
         | Inr entity \<Rightarrow>
             (let c2 = Populate entity related whereOptions
              in case populate mgr entity related whereOptions of
                   Inl e \<Rightarrow> \<lparr>reply = relation_failure modelName related e, calls = [c1, c2]\<rparr>
                 | Inr populated \<Rightarrow>
                     \<lparr>reply = Reply 200 (Data_value (optional_property populated related)),
                      calls = [c1, c2]\<rparr>))"

text \<open>
  The update handler does not await \<open>manager.findOne\<close>: \<open>entity\<close> is the promise, and the
  test \<open>!entity\<close> is made on the promise.
\<close>

definition update_handler :: "resource \<Rightarrow> handler" where
  "update_handler r mgr rq =
     (let modelName = pascalCaseName r;
          entity = Promise (findOne mgr modelName (params_id rq) None);
          c1 = FindOne modelName (params_id rq)
      in if \<not> truthy_promise entity then
           \<lparr>reply =
              Reply 404
                (Error_message
                   (''Could not find '' @ snakeCaseName r @ '' with ID of '' @ params_id rq)),
            calls = [c1]\<rparr>
         else
           (let c2 = Assign (Pending entity) (rq_body rq)
            in case assign mgr (Pending entity) (rq_body rq) of
                 Inl e \<Rightarrow> \<lparr>reply = Rejected e, calls = [c1, c2]\<rparr>
               | Inr assigned \<Rightarrow>
                   (case persistAndFlush mgr assigned of
                      Inl e \<Rightarrow> \<lparr>reply = Rejected e, calls = [c1, c2, PersistAndFlush assigned]\<rparr>
                    | Inr _ \<Rightarrow>
                        \<lparr>reply = Reply 200 (Data assigned None),
                         calls = [c1, c2, PersistAndFlush assigned]\<rparr>)))"

text \<open>
  The delete handler does not await \<open>modelRepository.findOne\<close> either.
\<close>

definition delete_handler :: "resource \<Rightarrow> handler" where
  "delete_handler r mgr rq =
     (let modelName = pascalCaseName r;
          entity = Promise (findOne mgr modelName (params_id rq) None);
          c1 = [GetRepository modelName, FindOne modelName (params_id rq)]
      in if \<not> truthy_promise entity then
           \<lparr>reply =
              Reply 404
                (Error_message (''Could not find resourceName with ID of '' @ params_id rq)),
            calls = c1\<rparr>
         else
           (let c2 = c1 @ [RemoveAndFlush modelName (Pending entity)]
            in case removeAndFlush mgr modelName (Pending entity) of
                 Inl e \<Rightarrow> \<lparr>reply = Rejected e, calls = c2\<rparr>
               | Inr _ \<Rightarrow> \<lparr>reply = Reply 204 No_content, calls = c2\<rparr>))"

subsection \<open>The route generator\<close>

datatype http_method = GET | POST | PUT | DELETE

record docs =
  summary :: string
  description :: "string option"
  parameters :: "docs_parameter list option"

text \<open>
  Modelled from the spec: the route builder of the framework (\<open>route\<close>, \<open>post\<close>, \<open>get\<close>, \<open>put\<close>,
  \<open>delete\<close>, \<open>internal\<close>, \<open>resource\<close>, \<open>path\<close>, \<open>extend\<close>, \<open>handle\<close>) is not among the sources. A
  route is the record of what the chain of calls was given: its name, its HTTP verb, its
  path template, its resource, its documentation and its handler.
\<close>

record route =
  route_name :: string
  route_type :: http_method
  route_internal :: bool
  route_resource :: resource
  route_path :: string
  route_docs :: docs
  route_handler :: handler

definition getApiPath :: "string \<Rightarrow> string \<Rightarrow> string" where
  "getApiPath apiPath path = ''/'' @ apiPath @ ''/'' @ path"

text \<open>The body of \<open>resources.forEach\<close> in \<open>extendRoutes\<close>: the routes pushed for one resource.\<close>

definition resource_routes ::
  "qs \<Rightarrow> resource list \<Rightarrow> (string \<Rightarrow> string) \<Rightarrow> resource \<Rightarrow> route list" where
  "resource_routes reparse resources apiPathOf r =
     (let singular = slugSingular r;
          plural = slugPlural r;
          flds = filter (\<lambda>f. \<not> primary f) (r_fields r);
          field_docs = map (\<lambda>f. getFieldDocsParameters f resources ''body'') flds
      in [\<lparr>route_name = ''Insert '' @ singular,
           route_type = POST, route_internal = True, route_resource = r,
           route_path = apiPathOf plural,
           route_docs =
             \<lparr>summary = ''Insert a single '' @ singular @ ''.'',
              description = None,
              parameters = Some field_docs\<rparr>,
           route_handler = insert_handler (pascalCaseName r)\<rparr>,
          \<lparr>route_name = ''Insert multiple '' @ plural,
           route_type = POST, route_internal = True, route_resource = r,
           route_path = apiPathOf plural,
           route_docs =
             \<lparr>summary = ''Insert multiple '' @ plural @ ''.'',
              description =
                Some (''This endpoint inserts multiple '' @ plural
                      @ ''. Provide an array of objects containing the '' @ plural
                      @ '' you want to insert.''),
              parameters = None\<rparr>,
           route_handler = insert_multiple_handler (pascalCaseName r)\<rparr>,
          \<lparr>route_name = ''Fetch multiple '' @ plural,
           route_type = GET, route_internal = True, route_resource = r,
           route_path = apiPathOf plural,
           route_docs =
             \<lparr>summary = ''Fetch multiple '' @ plural,
              description =
                Some (''This endpoint fetches all '' @ plural
                      @ '' that match an optional where query.''),
              parameters = None\<rparr>,
           route_handler = fetch_multiple_handler reparse r\<rparr>,
          \<lparr>route_name = ''Fetch single '' @ singular,
           route_type = GET, route_internal = True, route_resource = r,
           route_path = apiPathOf (plural @ ''/:id''),
           route_docs =
             \<lparr>summary = ''Fetch a single '' @ singular,
              description =
                Some (''This endpoint fetches a single '' @ singular
                      @ ''. Provide the primary key ID of the entity you want to fetch.''),
              parameters = Some []\<rparr>,
           route_handler = fetch_single_handler r\<rparr>,
          \<lparr>route_name = ''Fetch '' @ singular @ '' relations'',
           route_type = GET, route_internal = True, route_resource = r,
           route_path = apiPathOf (plural @ ''/:id/:related-resource''),
           route_docs =
             \<lparr>summary = ''Fetch relation to a '' @ singular,
              description =
                Some (''This endpoint figures out the relationship passed as /:related-resource ''
                      @ ''(one-to-one, one-to-many, many-to-many, or many-to-one) and returns ''
                      @ ''all related entities. The result will be a paginated array for ''
                      @ ''many-to-* relations and an object for one-to-* relations.''),
              parameters = Some field_docs\<rparr>,
           route_handler = fetch_relations_handler reparse r\<rparr>,
          \<lparr>route_name = ''Update single '' @ singular,
           route_type = PUT, route_internal = True, route_resource = r,
           route_path = apiPathOf (plural @ ''/:id''),
           route_docs =
             \<lparr>summary = ''Update a single '' @ singular,
              description =
                Some (''This endpoint update a single '' @ singular
                      @ ''. Provide the primary key ID of the entity you want to delete.''),
              parameters = None\<rparr>,
           route_handler = update_handler r\<rparr>,
          \<lparr>route_name = ''Delete single '' @ singular,
           route_type = DELETE, route_internal = True, route_resource = r,
           route_path = apiPathOf (plural @ ''/:id''),
           route_docs =
             \<lparr>summary = ''Delete a single '' @ singular,
              description =
                Some (''This endpoint deletes a single '' @ singular
                      @ ''. Provide the primary key ID of the entity you want to delete.''),
              parameters = Some field_docs\<rparr>,
           route_handler = delete_handler r\<rparr>])"

definition extendRoutes :: "qs \<Rightarrow> resource list \<Rightarrow> (string \<Rightarrow> string) \<Rightarrow> route list" where
  "extendRoutes reparse resources apiPathOf =
     concat (map (resource_routes reparse resources apiPathOf) resources)"

text \<open>
  The routes the plugin registers after the database is set up:
  \<open>this.extendRoutes(resources, path => this.getApiPath(apiPath, path))\<close>.
\<close>

definition plugin_routes :: "qs \<Rightarrow> resource list \<Rightarrow> string \<Rightarrow> route list" where
  "plugin_routes reparse resources apiPath = extendRoutes reparse resources (getApiPath apiPath)"

subsection \<open>Sample data\<close>

text \<open>
  A resource, queries, a manager over one stored post and requests, on which the
  definitions above are evaluated. The manager rejects what is not an entity, and
  \<open>populate\<close> throws a \<open>ValidationError\<close> for a name that the entity does not have.
\<close>

definition id_field :: field where
  "id_field =
     \<lparr>primary = True, nullable = False, related_reference = None,
      databaseField = ''id'', helpText = []\<rparr>"

definition title_field :: field where
  "title_field =
     \<lparr>primary = False, nullable = False, related_reference = None,
      databaseField = ''title'', helpText = []\<rparr>"

definition user_field :: field where
  "user_field =
     \<lparr>primary = False, nullable = True, related_reference = Some ManyToOne,
      databaseField = ''user'', helpText = []\<rparr>"

definition tags_field :: field where
  "tags_field =
     \<lparr>primary = False, nullable = True, related_reference = Some ManyToMany,
      databaseField = ''tags'', helpText = []\<rparr>"

definition posts :: resource where
  "posts =
     \<lparr>slugSingular = ''post'', slugPlural = ''posts'', pascalCaseName = ''Post'',
      snakeCaseName = ''post'',
      r_fields = [id_field, title_field, user_field, tags_field],
      perPageOptions = [Fin 25, Fin 50, Fin 100]\<rparr>"

definition page_query :: "string option \<Rightarrow> string option \<Rightarrow> query" where
  "page_query p n =
     \<lparr>q_page = p, q_per_page = n, q_populate = None, q_fields = None,
      q_filters = None, q_sort = Some ''title:asc'', q_where = None\<rparr>"

definition stored_post :: entity where
  "stored_post =
     [(''id'', VStr ''1''), (''title'', VStr ''Hello''),
      (''user'', VObj [(''id'', VStr ''7'')]),
      (''tags'', VArr [VObj [(''id'', VStr ''3'')], VObj [(''id'', VStr ''4'')]])]"

definition not_an_entity :: js_error where
  "not_an_entity = JsError (Some ''Error'') ''You need to pass entity instance''"

definition no_such_property :: js_error where
  "no_such_property = JsError (Some ''ValidationError'') ''Entity does not have the property''"

definition one_post_manager :: manager where
  "one_post_manager =
     \<lparr>create = (\<lambda>m b. case b of VObj kvs \<Rightarrow> Inr kvs | _ \<Rightarrow> Inl type_error),
      persistAndFlush = (\<lambda>t. case t of Pending _ \<Rightarrow> Inl not_an_entity | _ \<Rightarrow> Inr ()),
      findAndCount = (\<lambda>m w fo. Inr ([stored_post], Fin 1)),
      findOne = (\<lambda>m i fo. Inr (if i = ''1'' then Some stored_post else None)),
      populate =
        (\<lambda>e related w.
           case e of
             None \<Rightarrow> Inl type_error
           | Some kvs \<Rightarrow>
               if related \<in> set (map fst kvs) then Inr (Some kvs) else Inl no_such_property),
      assign =
        (\<lambda>t b. case t of
                  Entity e \<Rightarrow> (case b of VObj kvs \<Rightarrow> Inr (Entity (kvs @ e)) | _ \<Rightarrow> Inr (Entity e))
                | _ \<Rightarrow> Inl type_error),
      removeAndFlush = (\<lambda>m t. case t of Entity _ \<Rightarrow> Inr () | _ \<Rightarrow> Inl not_an_entity)\<rparr>"


definition request_for :: "string \<Rightarrow> string \<Rightarrow> request" where
  "request_for i related =
     \<lparr>params_id = i, params_related_resource = related,
      rq_body = VObj [(''title'', VStr ''Changed'')],
      rq_query = page_query None None\<rparr>"

text \<open>A \<open>qs\<close> that gives the object back as it is.\<close>

definition plain_qs :: qs where
  "plain_qs decode w = w"

section \<open>Properties\<close>

subsection \<open>Rounding to a double\<close>

lemma round_half_even_of_int: "round_half_even (of_int k) = k"
  by (simp add: round_half_even_def)

lemma round_half_even_le: "m \<le> of_int n \<Longrightarrow> round_half_even m \<le> n"
proof -
  assume h: "m \<le> of_int n"
  show ?thesis
  proof (cases "m = of_int n")
    case True
    then show ?thesis by (simp add: round_half_even_of_int)
  next
    case False
    with h have "m < of_int n" by simp
    then have "\<lfloor>m\<rfloor> < n" by (simp add: floor_less_iff)
    then show ?thesis by (simp add: round_half_even_def Let_def)
  qed
qed

lemma round_half_even_gt: "of_int k + 1 / 2 < m \<Longrightarrow> k < round_half_even m"
proof -
  assume h: "of_int k + 1 / 2 < m"
  then have "of_int k \<le> m" by simp
  then have f: "k \<le> \<lfloor>m\<rfloor>" by (simp add: le_floor_iff)
  show ?thesis
  proof (cases "k = \<lfloor>m\<rfloor>")
    case True
    with h have "1 / 2 < m - of_int \<lfloor>m\<rfloor>" by simp
    then show ?thesis using True by (simp add: round_half_even_def Let_def)
  next
    case False
    with f have "k < \<lfloor>m\<rfloor>" by simp
    then show ?thesis by (simp add: round_half_even_def Let_def)
  qed
qed

lemma pow2_of_bitlen:
  assumes "0 < a"
  shows "(2::rat) powi (bitlen a - 1) \<le> of_int a" "(of_int a :: rat) < 2 powi (bitlen a)"
proof -
  from assms have b1: "1 \<le> bitlen a" by (auto simp: bitlen_alt_def)
  from bitlen_bounds [OF assms]
  have lo: "2 ^ nat (bitlen a - 1) \<le> a" and hi: "a < 2 ^ nat (bitlen a)" by simp_all
  from lo have "(of_int (2 ^ nat (bitlen a - 1)) :: rat) \<le> of_int a" by (simp only: of_int_le_iff)
  then show "(2::rat) powi (bitlen a - 1) \<le> of_int a"
    using b1 by (simp add: power_int_def)
  from hi have "(of_int a :: rat) < of_int (2 ^ nat (bitlen a))" by (simp only: of_int_less_iff)
  then show "(of_int a :: rat) < 2 powi (bitlen a)"
    using b1 by (simp add: power_int_def)
qed

lemma exponent2_bounds:
  assumes "0 < x"
  shows "2 powi (exponent2 x) \<le> x \<and> x < 2 powi (exponent2 x + 1)"
proof -
  obtain a b where q: "quotient_of x = (a, b)" by (cases "quotient_of x")
  then have x: "x = of_int a / of_int b" and b: "0 < b"
    by (simp_all add: quotient_of_div quotient_of_denom_pos)
  from assms x b have a: "0 < a" by (simp add: zero_less_divide_iff)
  let ?c = "bitlen a - bitlen b"
  have bp: "(0::rat) < of_int b" using b by simp
  have ap: "(0::rat) < of_int a" using a by simp
  have up: "x < 2 powi (?c + 1)"
  proof -
    have "x < 2 powi (bitlen a) / of_int b"
      unfolding x using pow2_of_bitlen(2) [OF a] bp by (simp add: divide_strict_right_mono)
    also have "\<dots> \<le> 2 powi (bitlen a) / 2 powi (bitlen b - 1)"
      using pow2_of_bitlen(1) [OF b] bp by (intro divide_left_mono) (simp_all add: mult_pos_pos)
    also have "\<dots> = 2 powi (?c + 1)"
      by (simp add: power_int_diff [symmetric] algebra_simps)
    finally show ?thesis .
  qed
  have lo: "2 powi (?c - 1) \<le> x"
  proof -
    have "(2::rat) powi (?c - 1) = 2 powi (bitlen a - 1) / 2 powi (bitlen b)"
      by (simp add: power_int_diff [symmetric] algebra_simps)
    also have "\<dots> \<le> of_int a / 2 powi (bitlen b)"
      using pow2_of_bitlen(1) [OF a] by (simp add: divide_right_mono)
    also have "\<dots> \<le> of_int a / of_int b"
      using pow2_of_bitlen(2) [OF b] ap bp by (intro divide_left_mono) simp_all
    finally show ?thesis unfolding x .
  qed
  show ?thesis
  proof (cases "2 powi ?c \<le> x")
    case True
    then have "exponent2 x = ?c" by (simp add: exponent2_def q)
    with True up show ?thesis by simp
  next
    case False
    then have "exponent2 x = ?c - 1" by (simp add: exponent2_def q)
    with False lo show ?thesis by simp
  qed
qed

lemma pow2_less_imp: "(2::rat) powi m < 2 powi n \<Longrightarrow> m < n"
proof (rule ccontr)
  assume h: "(2::rat) powi m < 2 powi n" and "\<not> m < n"
  then have "n \<le> m" by simp
  then have "(2::rat) powi n \<le> 2 powi m" by (rule power_int_increasing) simp
  with h show False by simp
qed

lemma exponent2_unique:
  assumes "0 < x" "2 powi e \<le> x" "x < 2 powi (e + 1)"
  shows "exponent2 x = e"
proof -
  from exponent2_bounds [OF assms(1)]
  have lo: "2 powi (exponent2 x) \<le> x" and hi: "x < 2 powi (exponent2 x + 1)" by simp_all
  have "(2::rat) powi e < 2 powi (exponent2 x + 1)" using assms(2) hi by simp
  then have 1: "e < exponent2 x + 1" by (rule pow2_less_imp)
  have "(2::rat) powi (exponent2 x) < 2 powi (e + 1)" using lo assms(3) by simp
  then have 2: "exponent2 x < e + 1" by (rule pow2_less_imp)
  from 1 2 show ?thesis by simp
qed


lemma round64_pos_at:
  assumes "0 < x" "2 powi e \<le> x" "x < 2 powi (e + 1)" "- 1022 \<le> e"
  shows "round64_pos x = of_int (round_half_even (x / 2 powi (e - 52))) * 2 powi (e - 52)"
  using exponent2_unique [OF assms(1-3)] assms(4) by (simp add: round64_pos_def Let_def max_def)

text \<open>A positive double, given by its exponent and its integer significand, rounds to itself.\<close>

lemma round64_exact:
  assumes "0 < x" "2 powi e \<le> x" "x < 2 powi (e + 1)" "- 1022 \<le> e" "e < 1024"
    and "x = of_int k * 2 powi (e - 52)"
  shows "round64 x = Fin x"
proof -
  have q: "(2::rat) powi (e - 52) \<noteq> 0" by simp
  have "x / 2 powi (e - 52) = of_int k" unfolding assms(6) using q by simp
  then have "round64_pos x = x"
    using round64_pos_at [OF assms(1-4)] assms(6) by (simp add: round_half_even_of_int)
  moreover have "x < 2 powi 1024"
  proof -
    have "(2::rat) powi (e + 1) \<le> 2 powi 1024"
      using assms(5) by (intro power_int_increasing) simp_all
    with assms(3) show ?thesis by simp
  qed
  ultimately show ?thesis using assms(1) by (simp add: round64_def Let_def)
qed

lemma round64_neg: "round64 (- x) = (case round64 x of Fin y \<Rightarrow> Fin (- y) | PInf \<Rightarrow> NInf | NInf \<Rightarrow> PInf | NaN \<Rightarrow> NaN)"
  by (cases "x = 0"; cases "0 < x") (auto simp: round64_def Let_def)

lemma round64_pos_int:
  assumes "0 < n" "n \<le> 2 ^ 53"
  shows "round64 (of_int n) = Fin (of_int n)"
proof -
  let ?x = "of_int n :: rat"
  have xp: "0 < ?x" using assms(1) by simp
  let ?e = "exponent2 ?x"
  from exponent2_bounds [OF xp]
  have lo: "2 powi ?e \<le> ?x" and hi: "?x < 2 powi (?e + 1)" by simp_all
  have "(1::rat) \<le> ?x" using assms(1) by simp
  then have "(2::rat) powi 0 < 2 powi (?e + 1)" using hi by simp
  then have e0: "0 \<le> ?e" using pow2_less_imp [of 0 "?e + 1"] by simp
  have "?x \<le> 2 ^ 53" using assms(2) by (metis of_int_le_iff of_int_numeral of_int_power)
  then have x53: "?x \<le> 2 powi 53" by simp
  then have "(2::rat) powi ?e < 2 powi 54" 
  proof -
    have "(2::rat) powi 53 < 2 powi 54" by simp
    with lo x53 show ?thesis by linarith
  qed
  then have e53: "?e \<le> 53" using pow2_less_imp [of ?e 54] by simp
  show ?thesis
  proof (cases "?e = 53")
    case True
    with lo x53 have "?x = 2 powi 53" by simp
    then have "?x = of_int (2 ^ 52) * 2 powi (?e - 52)" using True by simp
    with round64_exact [OF xp lo hi, of "2 ^ 52"] e0 e53 show ?thesis by simp
  next
    case False
    with e53 have le: "?e \<le> 52" by simp
    have "(2::rat) powi (?e - 52) * 2 powi (52 - ?e) = 1"
      by (simp flip: power_int_add)
    moreover have "(2::rat) powi (52 - ?e) = of_int (2 ^ nat (52 - ?e))"
      using le by (simp add: power_int_def)
    ultimately have "?x = of_int (n * 2 ^ nat (52 - ?e)) * 2 powi (?e - 52)"
      by (simp add: mult.assoc mult.commute)
    with round64_exact [OF xp lo hi, of "n * 2 ^ nat (52 - ?e)"] e0 e53 show ?thesis by simp
  qed
qed

text \<open>An integer of magnitude up to \<open>2 ^ 53\<close> is a double.\<close>

lemma round64_of_int:
  assumes "\<bar>n\<bar> \<le> 2 ^ 53"
  shows "round64 (of_int n) = Fin (of_int n)"
proof (cases "n = 0")
  case True
  then show ?thesis by (simp add: round64_def)
next
  case False
  show ?thesis
  proof (cases "0 < n")
    case True
    with assms show ?thesis by (simp add: round64_pos_int)
  next
    case neg: False
    with False assms have "0 < - n" "- n \<le> 2 ^ 53" by simp_all
    then have "round64 (of_int (- n)) = Fin (of_int (- n))" by (rule round64_pos_int)
    then have "round64 (- of_int n) = Fin (- of_int n)" by simp
    then show ?thesis by (simp add: round64_neg split: jsnum.splits)
  qed
qed

lemma round64_numeral [simp]:
  "numeral w \<le> (2::int) ^ 53 \<Longrightarrow> round64 (numeral w) = Fin (numeral w)"
  using round64_of_int [of "numeral w"] by simp

lemma round64_neg_numeral [simp]:
  "numeral w \<le> (2::int) ^ 53 \<Longrightarrow> round64 (- numeral w) = Fin (- numeral w)"
  using round64_of_int [of "- numeral w"] by simp

lemma round64_0 [simp]: "round64 0 = Fin 0"
  by (simp add: round64_def)

lemma round64_1 [simp]: "round64 1 = Fin 1"
  using round64_of_int [of 1] by simp

lemma round64_m1 [simp]: "round64 (- 1) = Fin (- 1)"
  using round64_of_int [of "- 1"] by simp

text \<open>Rounding a positive rational of known exponent, below the largest exponent.\<close>

lemma round64_at:
  assumes "0 < x" "2 powi e \<le> x" "x < 2 powi (e + 1)" "- 1022 \<le> e" "e < 1023"
  shows "round64 x = Fin (of_int (round_half_even (x / 2 powi (e - 52))) * 2 powi (e - 52))"
proof -
  let ?q = "(2::rat) powi (e - 52)"
  have qp: "0 < ?q" by simp
  have "x / ?q < 2 powi (e + 1) / ?q" using assms(3) qp by (simp add: divide_strict_right_mono)
  also have "\<dots> = 2 powi 53" by (simp flip: power_int_diff)
  also have "\<dots> = of_int (2 ^ 53)" by simp
  finally have "x / ?q \<le> of_int (2 ^ 53)" by simp
  then have "round_half_even (x / ?q) \<le> 2 ^ 53" by (rule round_half_even_le)
  then have "(of_int (round_half_even (x / ?q)) :: rat) \<le> of_int (2 ^ 53)"
    by (simp only: of_int_le_iff)
  then have "of_int (round_half_even (x / ?q)) * ?q \<le> of_int (2 ^ 53) * ?q"
    using qp by (simp add: mult_right_mono)
  also have "of_int (2 ^ 53) * ?q = 2 powi 53 * ?q" by simp
  also have "\<dots> = 2 powi (53 + (e - 52))" by (rule power_int_add [symmetric]) simp
  also have "\<dots> = 2 powi (e + 1)" by (simp add: algebra_simps)
  also have "\<dots> < 2 powi 1024" using assms(5) by (intro power_int_strict_increasing) simp_all
  finally have "round64_pos x < 2 powi 1024"
    using round64_pos_at [OF assms(1-4)] by simp
  then show ?thesis
    using assms(1) round64_pos_at [OF assms(1-4)] by (simp add: round64_def Let_def)
qed

text \<open>
  The quotient of two integers below \<open>2 ^ 53\<close> is rounded without crossing an integer: the
  ceiling of the rounded quotient is the ceiling of the quotient.
\<close>

lemma round64_div_ceiling:
  assumes t: "0 < t" "t < 2 ^ 53" and l: "0 < l" "l \<le> 2 ^ 53"
  shows "\<exists>y. round64 (of_int t / of_int l) = Fin y \<and> \<lceil>y\<rceil> = \<lceil>(of_int t / of_int l :: rat)\<rceil>"
proof -
  define x :: rat where "x = of_int t / of_int l"
  define e where "e = exponent2 x"
  define q :: rat where "q = 2 powi (e - 52)"
  define P :: int where "P = 2 ^ nat (52 - e)"
  define k where "k = \<lfloor>x\<rfloor>"
  define n where "n = round_half_even (x * of_int P)"
  have lp: "(0::rat) < of_int l" and tp: "(0::rat) < of_int t" using t l by simp_all
  have xp: "0 < x" unfolding x_def using lp tp by simp
  have xl: "x * of_int l = of_int t" unfolding x_def using lp by simp
  from exponent2_bounds [OF xp]
  have lo: "2 powi e \<le> x" and hi: "x < 2 powi (e + 1)" unfolding e_def by simp_all
  have l53: "(of_int l :: rat) \<le> 2 ^ 53"
    using l(2) by (metis of_int_le_iff of_int_numeral of_int_power)
  have t53: "(of_int t :: rat) < 2 ^ 53"
    using t(2) by (metis of_int_less_iff of_int_numeral of_int_power)
  have t1: "(1::rat) \<le> of_int t" using t(1) by simp
  have l1: "(1::rat) \<le> of_int l" using l(1) by simp
  have "(2::rat) powi (- 53) = inverse (2 powi 53)" by (rule power_int_minus)
  also have "\<dots> = 1 / 2 ^ 53" by (simp add: inverse_eq_divide)
  also have "\<dots> \<le> 1 / of_int l" using l53 lp by (intro divide_left_mono) simp_all
  also have "\<dots> \<le> x" unfolding x_def using t1 lp by (simp add: divide_right_mono)
  finally have "(2::rat) powi (- 53) \<le> x" .
  from this hi have "(2::rat) powi (- 53) < 2 powi (e + 1)" by (rule le_less_trans)
  then have elow: "- 53 \<le> e" using pow2_less_imp [of "- 53" "e + 1"] by simp
  have "x \<le> x * of_int l" using l1 xp by simp
  then have xt: "x \<le> of_int t" by (simp only: xl)
  have "(2::rat) powi e < 2 ^ 53" using lo xt t53 by linarith
  also have "(2::rat) ^ 53 = 2 powi 53" by simp
  finally have ehigh: "e \<le> 52" using pow2_less_imp [of e 53] by simp
  have qp: "0 < q" unfolding q_def by simp
  have P: "(of_int P :: rat) = 2 powi (52 - e)" unfolding P_def using ehigh by (simp add: power_int_def)
  have Pp: "(0::rat) < of_int P" unfolding P by simp
  have "(2::rat) powi (52 - e) * 2 powi (e - 52) = 2 powi ((52 - e) + (e - 52))"
    by (rule power_int_add [symmetric]) simp
  then have Pq: "of_int P * q = 1" unfolding P q_def by simp
  have divq: "x / q = x * of_int P"
  proof -
    have "x / q = x * (of_int P * q) / q" by (simp only: Pq mult_1_right)
    then show ?thesis using qp by simp
  qed
  have r: "round64 x = Fin (of_int n * q)"
    using round64_at [OF xp lo hi] elow ehigh unfolding n_def q_def [symmetric] divq by simp
  have kx: "of_int k \<le> x" and xk: "x < of_int k + 1" unfolding k_def by linarith+
  have "x * of_int P \<le> (of_int k + 1) * of_int P"
    using xk Pp by (intro mult_right_mono) simp_all
  then have "x * of_int P \<le> of_int ((k + 1) * P)" by simp
  then have "n \<le> (k + 1) * P" unfolding n_def by (rule round_half_even_le)
  then have "(of_int n :: rat) \<le> of_int ((k + 1) * P)" by (simp only: of_int_le_iff)
  then have "of_int n * q \<le> of_int ((k + 1) * P) * q"
    using qp by (intro mult_right_mono) simp_all
  also have "\<dots> = (of_int k + 1) * (of_int P * q)" by (simp add: mult.assoc)
  also have "\<dots> = of_int k + 1" by (simp only: Pq mult_1_right)
  finally have up: "of_int n * q \<le> of_int k + 1" .
  show ?thesis
  proof (cases "x = of_int k")
    case True
    then have "x * of_int P = of_int (k * P)" by simp
    then have "n = k * P" unfolding n_def by (simp only: round_half_even_of_int)
    then have "of_int n * q = of_int k * (of_int P * q)" by (simp add: mult.assoc)
    then have "of_int n * q = x" using True by (simp only: Pq mult_1_right)
    with r show ?thesis unfolding x_def by simp
  next
    case False
    with kx have kl: "of_int k < x" by simp
    then have "of_int k * of_int l < x * of_int l" using lp by (intro mult_strict_right_mono)
    then have "(of_int (k * l) :: rat) < of_int t" by (simp add: xl)
    then have "k * l < t" by (simp only: of_int_less_iff)
    then have "k * l + 1 \<le> t" by simp
    then have "(of_int (k * l + 1) :: rat) \<le> of_int t" by (simp only: of_int_le_iff)
    then have g1: "of_int k * of_int l + 1 \<le> x * of_int l" by (simp add: xl)
    have lq: "of_int l * 2 powi e < (2::rat) ^ 53"
    proof -
      have "of_int l * 2 powi e \<le> of_int l * x" using lo lp by (intro mult_left_mono) simp_all
      also have "\<dots> = of_int t" using xl by (simp add: mult.commute)
      finally show ?thesis using t53 by simp
    qed
    have "(2::rat) powi e * 2 powi (53 - e) = 2 powi (e + (53 - e))"
      by (rule power_int_add [symmetric]) simp
    then have e53: "(2::rat) powi e * 2 powi (53 - e) = 2 ^ 53" by simp
    have "(2::rat) powi (53 - e) = 2 powi (1 + (52 - e))" by (simp add: algebra_simps)
    also have "\<dots> = 2 powi 1 * 2 powi (52 - e)" by (rule power_int_add) simp
    finally have twoP: "(2::rat) powi (53 - e) = 2 * of_int P" unfolding P by simp
    have lP: "(of_int l :: rat) < 2 * of_int P"
    proof (rule ccontr)
      assume "\<not> (of_int l :: rat) < 2 * of_int P"
      then have "2 powi (53 - e) \<le> (of_int l :: rat)" unfolding twoP by simp
      then have "2 powi e * 2 powi (53 - e) \<le> 2 powi e * (of_int l :: rat)"
        by (intro mult_left_mono) simp_all
      then have "(2::rat) ^ 53 \<le> of_int l * 2 powi e" unfolding e53 by (simp add: mult.commute)
      with lq show False by simp
    qed
    have half: "(of_int l :: rat) / 2 < of_int P" using lP by simp
    have "(of_int (k * P) + 1 / 2) * of_int l = of_int k * of_int l * of_int P + of_int l / (2::rat)"
      by (simp add: algebra_simps)
    also have "\<dots> < of_int k * of_int l * of_int P + of_int P" using half by simp
    also have "\<dots> = (of_int k * of_int l + 1) * of_int P" by (simp add: algebra_simps)
    also have "\<dots> \<le> (x * of_int l) * of_int P" using g1 Pp by (intro mult_right_mono) simp_all
    also have "\<dots> = (x * of_int P) * of_int l" by (simp add: mult.assoc mult.commute)
    finally have "of_int (k * P) + 1 / 2 < x * of_int P"
      using lp by (simp only: mult_less_cancel_right_pos)
    then have "k * P < n" unfolding n_def by (rule round_half_even_gt)
    then have "k * P + 1 \<le> n" by simp
    then have "(of_int (k * P + 1) :: rat) \<le> of_int n" by (simp only: of_int_le_iff)
    then have "of_int (k * P + 1) * q \<le> of_int n * q" using qp by (intro mult_right_mono) simp_all
    moreover have "of_int (k * P + 1) * q = of_int k * (of_int P * q) + q"
      by (simp add: algebra_simps)
    ultimately have "of_int k + q \<le> of_int n * q" by (simp only: Pq mult_1_right)
    with qp have down: "of_int k < of_int n * q" by linarith
    from down up have "\<lceil>of_int n * q\<rceil> = k + 1" by (intro ceiling_unique) simp_all
    moreover from kl xk have "\<lceil>x\<rceil> = k + 1" by (intro ceiling_unique) simp_all
    ultimately show ?thesis using r unfolding x_def by simp
  qed
qed

lemma js_mul_NaN [simp]: "js_mul x NaN = NaN"
  by (cases x) simp_all

lemma js_div_NaN [simp]: "js_div x NaN = NaN"
  by (cases x) simp_all

text \<open>Reading the digits of a string, by the definitions.\<close>

lemmas read_digits =
  to_number_def trim_def is_space_def unsigned_decimal_def exponent_part_def scale10_def
  decimal_value_def radix_value_def digit_val_def is_digit_def parseInt_def parseFloat_def

subsection \<open>The decoder\<close>

lemma replace_where_absent: "\<not> sublist ''where'' v \<Longrightarrow> replace_where v = v"
proof (induction v)
  case Nil
  show ?case by simp
next
  case (Cons c cs)
  have no_prefix: "take 5 (c # cs) \<noteq> ''where''"
  proof
    assume h: "take 5 (c # cs) = ''where''"
    have "c # cs = [] @ take 5 (c # cs) @ drop 5 (c # cs)"
      by (simp only: append_Nil append_take_drop_id)
    then have "sublist ''where'' (c # cs)"
      unfolding sublist_def h by blast
    with Cons.prems show False by simp
  qed
  have "\<not> sublist ''where'' cs"
    using Cons.prems by (auto simp: sublist_Cons_right)
  then have "replace_where cs = cs" by (rule Cons.IH)
  moreover have "replace_where (c # cs) = c # replace_where cs"
    using no_prefix by (simp only: replace_where.simps if_False)
  ultimately show ?case by (simp only:)
qed

lemma decoder_numeric: "matches_numeric v \<Longrightarrow> decoder v = VNum (parseFloat v)"
  by (simp add: decoder_def)

lemma decoder_other:
  "\<not> matches_numeric v \<Longrightarrow> decoder v =
     (if has_property keywords_obj (replace_where v) then get_property keywords_obj (replace_where v)
      else VStr (replace_where v))"
  by (simp add: decoder_def Let_def)

subsection \<open>Limit and offset\<close>

lemma add_sorter_keeps:
  "fo_limit (add_sorter fo s) = fo_limit fo"
  "fo_offset (add_sorter fo s) = fo_offset fo"
  by (simp_all add: add_sorter_def Let_def split: prod.splits list.splits)

lemma sorters_keep:
  "fo_limit (foldl add_sorter fo ss) = fo_limit fo \<and> fo_offset (foldl add_sorter fo ss) = fo_offset fo"
  by (induction ss arbitrary: fo) (simp_all add: add_sorter_keeps)

lemma limit_offset_closed:
  "given (q_page q) = None \<or> q_page q = Some ''-1'' \<Longrightarrow>
     fo_limit (parseQueryToFindOptions q r) = None \<and> fo_offset (parseQueryToFindOptions q r) = None"
  by (auto simp: parseQueryToFindOptions_def Let_def sorters_keep no_find_options_def given_def
           split: option.splits)

lemma limit_offset_open:
  "q_page q = Some p \<Longrightarrow> p \<noteq> [] \<Longrightarrow> p \<noteq> ''-1'' \<Longrightarrow>
     fo_limit (parseQueryToFindOptions q r) = Some (resolve_limit q r) \<and>
     fo_offset (parseQueryToFindOptions q r) =
       Some (Number (if js_ge (to_number p) (Fin 1)
                     then js_mul (js_sub (to_number p) (Fin 1)) (num_of (resolve_limit q r))
                     else Fin 0))"
  by (auto simp: parseQueryToFindOptions_def Let_def sorters_keep no_find_options_def given_def
           split: option.splits)

lemma to_number_empty: "to_number [] = Fin 0"
  by (simp add: read_digits)

lemma to_number_minus_one: "to_number ''-1'' = Fin (- 1)"
  by (simp add: read_digits)

lemma page_ge_one_open: "to_number p = Fin x \<Longrightarrow> 1 \<le> x \<Longrightarrow> p \<noteq> [] \<and> p \<noteq> ''-1''"
  using to_number_empty to_number_minus_one by auto

lemma parsed_offset_falsy:
  assumes "read_num (fo_limit (parseQueryToFindOptions q r)) = Undefined"
  shows "\<not> truthy_optnum (read_num (fo_offset (parseQueryToFindOptions q r)))"
proof (cases "given (q_page q) = None \<or> q_page q = Some ''-1''")
  case True
  then show ?thesis using limit_offset_closed [of q r] by (simp add: read_num_def)
next
  case False
  then obtain p where p: "q_page q = Some p" "p \<noteq> []" "p \<noteq> ''-1''"
    by (auto simp: given_def split: option.splits if_splits)
  from limit_offset_open [OF p, of r] assms have "resolve_limit q r = Undefined"
    by (simp add: read_num_def)
  with limit_offset_open [OF p, of r] show ?thesis
    by (cases "to_number p") (simp_all add: read_num_def truthy_num_def js_sub_def)
qed

text \<open>
  Find options with an offset and no limit, which the parser never makes, would have the
  page \<open>NaN\<close>.
\<close>

lemma page_nan_without_limit:
  "page (getPageMetaFromFindOptions t (no_find_options\<lparr>fo_offset := Some (Number (Fin 5))\<rparr>))
     = Some NaN"
  by (simp add: getPageMetaFromFindOptions_def no_find_options_def read_num_def truthy_num_def)

text \<open>Rounding down to an integer that is close below.\<close>

lemma round_half_even_down:
  "of_int f \<le> m \<Longrightarrow> m < of_int f + 1 / 2 \<Longrightarrow> round_half_even m = f"
proof -
  assume a: "of_int f \<le> m" and b: "m < of_int f + 1 / 2"
  then have "\<lfloor>m\<rfloor> = f" by (intro floor_unique) simp_all
  with b show ?thesis by (simp add: round_half_even_def Let_def)
qed

text \<open>Two roundings that lose digits.\<close>

lemma big_quotient: "round64 (11258999068426246 / 5) = Fin 2251799813685249"
proof -
  have "round64 (11258999068426246 / 5)
          = Fin (of_int (round_half_even ((11258999068426246 / 5) / 2 powi (51 - 52))) * 2 powi (51 - 52))"
    by (rule round64_at) simp_all
  moreover have "round_half_even ((11258999068426246 / 5) / 2 powi (51 - 52)) = 4503599627370498"
    by (rule round_half_even_down) simp_all
  ultimately show ?thesis by simp
qed

lemma big_product: "round64 (9007199254740991 * 10) = Fin 90071992547409904"
proof -
  have "round64 (9007199254740991 * 10)
          = Fin (of_int (round_half_even ((9007199254740991 * 10) / 2 powi (56 - 52))) * 2 powi (56 - 52))"
    by (rule round64_at) simp_all
  moreover have "round_half_even ((9007199254740991 * 10) / 2 powi (56 - 52)) = 5629499534213119"
    by (rule round_half_even_down) simp_all
  ultimately show ?thesis by simp
qed

lemma round_half_even_up:
  "of_int f - 1 / 2 < m \<Longrightarrow> m \<le> of_int f \<Longrightarrow> round_half_even m = f"
proof -
  assume a: "of_int f - 1 / 2 < m" and b: "m \<le> of_int f"
  show ?thesis
  proof (cases "m = of_int f")
    case True
    then show ?thesis by (simp add: round_half_even_of_int)
  next
    case False
    with b have "m < of_int f" by simp
    with a have "\<lfloor>m\<rfloor> = f - 1" by (intro floor_unique) simp_all
    with a show ?thesis by (simp add: round_half_even_def Let_def)
  qed
qed

text \<open>The page \<open>1.1\<close> is the double next to it, and so its offset is not a whole number.\<close>

lemma round64_eleven_tenths: "round64 (11 / 10) = Fin (2476979795053773 / 2251799813685248)"
proof -
  have "round64 (11 / 10)
          = Fin (of_int (round_half_even ((11 / 10) / 2 powi (0 - 52))) * 2 powi (0 - 52))"
    by (rule round64_at) simp_all
  moreover have "round_half_even ((11 / 10) / 2 powi (0 - 52)) = 4953959590107546"
    by (rule round_half_even_up) simp_all
  ultimately show ?thesis by simp
qed

lemma fractional_page_offset:
  "to_number ''1.1'' = Fin (2476979795053773 / 2251799813685248)
   \<and> fo_offset (parseQueryToFindOptions (page_query (Some ''1.1'') (Some ''10'')) posts)
       = Some (Number (Fin (1125899906842625 / 1125899906842624)))"
proof -
  let ?q = "page_query (Some ''1.1'') (Some ''10'')"
  have n: "to_number ''1.1'' = Fin (2476979795053773 / 2251799813685248)"
    using round64_eleven_tenths by (simp add: read_digits)
  have l: "resolve_limit ?q posts = Number (Fin 10)"
    by (simp add: resolve_limit_def page_query_def read_digits truthy_num_def)
  have s: "round64 (2476979795053773 / 2251799813685248 + - 1) = Fin (225179981368525 / 2251799813685248)"
  proof -
    have "round64 (225179981368525 / 2251799813685248) = Fin (225179981368525 / 2251799813685248)"
      by (rule round64_exact [where e = "- 4" and k = 7205759403792800]) simp_all
    then show ?thesis by simp
  qed
  have m: "round64 (225179981368525 / 2251799813685248 * 10) = Fin (1125899906842625 / 1125899906842624)"
  proof -
    have "round64 (1125899906842625 / 1125899906842624) = Fin (1125899906842625 / 1125899906842624)"
      by (rule round64_exact [where e = 0 and k = 4503599627370500]) simp_all
    then show ?thesis by simp
  qed
  have "q_page ?q = Some ''1.1''" by (simp add: page_query_def)
  from limit_offset_open [OF this, of posts]
  have "fo_offset (parseQueryToFindOptions ?q posts)
          = Some (Number (Fin (1125899906842625 / 1125899906842624)))"
    using s m by (simp add: n l js_ge_def js_sub_def)
  with n show ?thesis by simp
qed

text \<open>The quotient of two integers below \<open>2 ^ 53\<close>, divided and rounded up as the code does.\<close>

lemma js_div_ceil:
  assumes "0 \<le> t" "t < 2 ^ 53" "1 \<le> l" "l \<le> 2 ^ 53"
  shows "js_ceil (js_div (Fin (of_int t)) (Fin (of_int l))) = Fin (of_int \<lceil>(of_int t / of_int l :: rat)\<rceil>)"
proof (cases "t = 0")
  case True
  then show ?thesis using assms(3) by simp
next
  case False
  with assms have "0 < t" "0 < l" by simp_all
  from round64_div_ceiling [OF this(1) assms(2) this(2) assms(4)]
  obtain y where "round64 (of_int t / of_int l) = Fin y" "\<lceil>y\<rceil> = \<lceil>(of_int t / of_int l :: rat)\<rceil>"
    by blast
  then show ?thesis using \<open>0 < l\<close> by simp
qed

subsection \<open>Lists of routes\<close>

lemma length_resource_routes: "length (resource_routes reparse resources f r) = 7"
  by (simp add: resource_routes_def Let_def)

lemma concat_blocks:
  "(\<And>x. length (f x) = n) \<Longrightarrow> i < length xs \<Longrightarrow> j < n \<Longrightarrow>
     concat (map f xs) ! (n * i + j) = f (xs ! i) ! j"
proof (induction xs arbitrary: i)
  case Nil
  then show ?case by simp
next
  case (Cons x xs)
  show ?case
  proof (cases i)
    case 0
    with Cons.prems show ?thesis by (simp add: nth_append)
  next
    case (Suc k)
    with Cons.prems have k: "k < length xs" by simp
    have "concat (map f (x # xs)) ! (n * i + j) = concat (map f xs) ! (n * k + j)"
      using Suc Cons.prems(1) [of x] by (simp add: nth_append)
    also have "\<dots> = f (xs ! k) ! j"
      using Cons.IH [OF Cons.prems(1) k Cons.prems(3)] .
    finally show ?thesis using Suc by simp
  qed
qed

lemma length_concat_blocks:
  "(\<And>x. length (f x) = n) \<Longrightarrow> length (concat (map f xs)) = n * length xs"
  by (induction xs) simp_all

subsection \<open>The handlers that test a promise\<close>

lemma delete_handler_never_404:
  "RemoveAndFlush (pascalCaseName r)
      (Pending (Promise (findOne mgr (pascalCaseName r) (params_id rq) None)))
     \<in> set (calls (delete_handler r mgr rq))
   \<and> (\<forall>b. reply (delete_handler r mgr rq) \<noteq> Reply 404 b)"
  by (simp add: delete_handler_def Let_def truthy_promise_def split: sum.splits)

lemma update_handler_never_404:
  "Assign (Pending (Promise (findOne mgr (pascalCaseName r) (params_id rq) None))) (rq_body rq)
     \<in> set (calls (update_handler r mgr rq))
   \<and> (\<forall>b. reply (update_handler r mgr rq) \<noteq> Reply 404 b)
   \<and> (\<forall>t. assign mgr (Pending (Promise (findOne mgr (pascalCaseName r) (params_id rq) None)))
              (rq_body rq) = Inr t
        \<longrightarrow> PersistAndFlush t \<in> set (calls (update_handler r mgr rq)))"
  by (simp add: update_handler_def Let_def truthy_promise_def split: sum.splits)

lemma fetch_single_missing_id:
  "reply (fetch_single_handler posts one_post_manager (request_for ''999'' []))
     = Reply 404 (Error_message ''could not find Post with ID 999'')"
  by (simp add: fetch_single_handler_def Let_def one_post_manager_def posts_def request_for_def)

section \<open>The claims\<close>

text \<open>
  Claim C1: a delete request whose id matches no stored entity is answered with 404 and
  \<open>removeAndFlush\<close> is never invoked. The handler tests the promise that
  \<open>modelRepository.findOne\<close> returns, not the entity it resolves to, so the test never
  fails: for every manager and request the handler calls \<open>removeAndFlush\<close> with the
  promise and does not answer 404. So it does on the manager over one post for the id 999,
  which matches nothing. The handler of \<open>Fetch single\<close> awaits the same lookup and answers
  404 (\<open>fetch_single_missing_id\<close>).
\<close>

theorem delete_missing_id:
  "RemoveAndFlush (pascalCaseName r)
      (Pending (Promise (findOne mgr (pascalCaseName r) (params_id rq) None)))
     \<in> set (calls (delete_handler r mgr rq))
   \<and> (\<forall>b. reply (delete_handler r mgr rq) \<noteq> Reply 404 b)
   \<and> findOne one_post_manager (pascalCaseName posts) ''999'' None = Inr None
   \<and> calls (delete_handler posts one_post_manager (request_for ''999'' []))
       = [GetRepository ''Post'', FindOne ''Post'' ''999'',
          RemoveAndFlush ''Post'' (Pending (Promise (Inr None)))]
   \<and> reply (delete_handler posts one_post_manager (request_for ''999'' [])) = Rejected not_an_entity"
proof -
  have "findOne one_post_manager (pascalCaseName posts) ''999'' None = Inr None
   \<and> calls (delete_handler posts one_post_manager (request_for ''999'' []))
       = [GetRepository ''Post'', FindOne ''Post'' ''999'',
          RemoveAndFlush ''Post'' (Pending (Promise (Inr None)))]
   \<and> reply (delete_handler posts one_post_manager (request_for ''999'' [])) = Rejected not_an_entity"
    by (simp add: delete_handler_def Let_def truthy_promise_def one_post_manager_def posts_def
          request_for_def)
  with delete_handler_never_404 [of r mgr rq] show ?thesis
    by (simp only: simp_thms)
qed

text \<open>
  Claim C2: an update request whose id matches no stored entity is answered with 404, and
  nothing is merged or persisted. The handler tests the promise that \<open>manager.findOne\<close>
  returns: for every manager and request it goes on to \<open>manager.assign\<close> with the body of
  the request and does not answer 404, and it calls \<open>persistAndFlush\<close> when \<open>assign\<close>
  returns (\<open>update_handler_never_404\<close>). So it does on the manager over one post for the id
  999, which matches nothing.
\<close>

theorem update_missing_id:
  "Assign (Pending (Promise (findOne mgr (pascalCaseName r) (params_id rq) None))) (rq_body rq)
     \<in> set (calls (update_handler r mgr rq))
   \<and> (\<forall>b. reply (update_handler r mgr rq) \<noteq> Reply 404 b)
   \<and> findOne one_post_manager (pascalCaseName posts) ''999'' None = Inr None
   \<and> calls (update_handler posts one_post_manager (request_for ''999'' []))
       = [FindOne ''Post'' ''999'',
          Assign (Pending (Promise (Inr None))) (VObj [(''title'', VStr ''Changed'')])]
   \<and> reply (update_handler posts one_post_manager (request_for ''999'' [])) = Rejected type_error"
proof -
  have "findOne one_post_manager (pascalCaseName posts) ''999'' None = Inr None
   \<and> calls (update_handler posts one_post_manager (request_for ''999'' []))
       = [FindOne ''Post'' ''999'',
          Assign (Pending (Promise (Inr None))) (VObj [(''title'', VStr ''Changed'')])]
   \<and> reply (update_handler posts one_post_manager (request_for ''999'' [])) = Rejected type_error"
    by (simp add: update_handler_def Let_def truthy_promise_def one_post_manager_def posts_def
          request_for_def)
  with update_handler_never_404 [of mgr r rq] show ?thesis
    by (simp only: simp_thms)
qed

text \<open>
  Claim C3, as amended: the decoder turns a numeric-looking string into its number (\<open>5\<close>
  for \<open>"5"\<close>), the strings \<open>true\<close>, \<open>false\<close>, \<open>null\<close> and \<open>undefined\<close> into the values they
  name, and gives back unchanged every other string that does not contain \<open>where\<close> and is
  not the name of a property inherited from \<open>Object.prototype\<close>.
\<close>

theorem decoder_cases:
  "(matches_numeric v \<longrightarrow> decoder v = VNum (parseFloat v))
   \<and> decoder ''5'' = VNum (Fin 5)
   \<and> decoder ''true'' = VBool True
   \<and> decoder ''false'' = VBool False
   \<and> decoder ''null'' = VNull
   \<and> decoder ''undefined'' = VUndefined
   \<and> (\<not> matches_numeric v \<and> \<not> sublist ''where'' v
        \<and> v \<notin> {''true'', ''false'', ''null'', ''undefined''}
        \<and> v \<notin> set object_prototype_names
      \<longrightarrow> decoder v = VStr v)"
proof -
  have a: "decoder ''5'' = VNum (Fin 5)"
    by (simp add: decoder_def matches_numeric_def read_digits)
  have b: "decoder ''true'' = VBool True" by code_simp
  have c: "decoder ''false'' = VBool False" by code_simp
  have d: "decoder ''null'' = VNull" by code_simp
  have e: "decoder ''undefined'' = VUndefined" by code_simp
  have f: "decoder v = VStr v"
    if "\<not> matches_numeric v" "\<not> sublist ''where'' v"
       "v \<notin> {''true'', ''false'', ''null'', ''undefined''}" "v \<notin> set object_prototype_names"
  proof -
    have "replace_where v = v" using that(2) by (rule replace_where_absent)
    moreover have "\<not> has_property keywords_obj v"
      using that(3,4) by (simp add: has_property_def keywords_obj_def)
    ultimately show ?thesis using that(1) by (simp add: decoder_other)
  qed
  from a b c d e f decoder_numeric show ?thesis by blast
qed

theorem decoder_cases_witness:
  "\<not> matches_numeric ''hello'' \<and> \<not> sublist ''where'' ''hello''
   \<and> matches_numeric ''12.5'' \<and> decoder ''12.5'' = VNum (Fin (25 / 2))
   \<and> decoder ''hello'' = VStr ''hello''"
proof -
  have n: "\<not> matches_numeric ''hello''" by (simp add: matches_numeric_def is_digit_def)
  have w: "\<not> sublist ''where'' ''hello''" by (simp add: sublist_Cons_right prefix_Cons)
  have k: "''hello'' \<notin> {''true'', ''false'', ''null'', ''undefined''}
           \<and> ''hello'' \<notin> set object_prototype_names"
    by (simp add: object_prototype_names_def)
  have m: "matches_numeric ''12.5''" by (simp add: matches_numeric_def is_digit_def)
  have "round64 (25 / 2) = Fin (25 / 2)"
    by (rule round64_exact [where e = 3 and k = 7036874417766400]) simp_all
  then have f: "parseFloat ''12.5'' = Fin (25 / 2)" by (simp add: read_digits)
  have r1: "decoder ''hello'' = VStr ''hello''"
    using n w k decoder_cases [of "''hello''"] by simp
  have r2: "decoder ''12.5'' = VNum (parseFloat ''12.5'')"
    using m decoder_cases [of "''12.5''"] by simp
  show ?thesis using n w m r1 r2 f by simp
qed

text \<open>
  The claim as stated fails at \<open>"false"\<close>, which is neither numeric-looking nor \<open>"true"\<close>
  nor \<open>"null"\<close> and does not pass through as a string. A string that contains \<open>where\<close> loses
  its first occurrence, and the name of an inherited property gives the inherited value.
\<close>

theorem decoder_false_counterexample:
  "\<not> matches_numeric ''false'' \<and> ''false'' \<noteq> ''true'' \<and> ''false'' \<noteq> ''null''
   \<and> decoder ''false'' \<noteq> VStr ''false''"
  by code_simp

lemma decoder_strips_where: "decoder ''somewhere'' = VStr ''some''"
  by code_simp

lemma decoder_inherited_name: "decoder ''toString'' = VNative ''toString''"
  by code_simp

text \<open>
  Claim C4, as amended: the route generator makes exactly seven routes for every
  resource, with these verbs and paths in this order.
\<close>

theorem seven_routes:
  "length (extendRoutes reparse resources f) = 7 * length resources
   \<and> map (\<lambda>x. (route_type x, route_path x)) (resource_routes reparse resources f r)
       = [(POST, f (slugPlural r)),
          (POST, f (slugPlural r)),
          (GET, f (slugPlural r)),
          (GET, f (slugPlural r @ ''/:id'')),
          (GET, f (slugPlural r @ ''/:id/:related-resource'')),
          (PUT, f (slugPlural r @ ''/:id'')),
          (DELETE, f (slugPlural r @ ''/:id''))]"
proof
  show "length (extendRoutes reparse resources f) = 7 * length resources"
    unfolding extendRoutes_def
    by (rule length_concat_blocks) (rule length_resource_routes)
next
  show "map (\<lambda>x. (route_type x, route_path x)) (resource_routes reparse resources f r)
       = [(POST, f (slugPlural r)),
          (POST, f (slugPlural r)),
          (GET, f (slugPlural r)),
          (GET, f (slugPlural r @ ''/:id'')),
          (GET, f (slugPlural r @ ''/:id/:related-resource'')),
          (PUT, f (slugPlural r @ ''/:id'')),
          (DELETE, f (slugPlural r @ ''/:id''))]"
    by (simp add: resource_routes_def Let_def)
qed

text \<open>
  For one resource the generator makes seven routes, not six.
\<close>

theorem six_routes_counterexample:
  "length (extendRoutes plain_qs [posts] (getApiPath ''api'')) \<noteq> 6"
  by (simp add: extendRoutes_def length_resource_routes)

text \<open>
  Claim C5, as amended: when the page is the integer \<open>x\<close> with \<open>1 \<le> x \<le> 2 ^ 53\<close> and the
  limit resolves to the integer \<open>l\<close> with \<open>\<bar>(x - 1) * l\<bar> \<le> 2 ^ 53\<close>, the offset is
  \<open>(x - 1) * l\<close>; when a page is given, is not empty, is not \<open>-1\<close> and is not at least one,
  the offset is zero; when the page is absent, empty or \<open>-1\<close>, no offset is set; and for
  integers \<open>0 \<le> t < 2 ^ 53\<close> and \<open>1 \<le> m \<le> 2 ^ 53\<close> the page count of the total \<open>t\<close> under the
  limit \<open>m\<close> is the ceiling of \<open>t / m\<close>.
\<close>

theorem pagination_arithmetic:
  "(q_page q = Some p \<and> to_number p = Fin (of_int x) \<and> 1 \<le> x \<and> x \<le> 2 ^ 53
      \<and> resolve_limit q r = Number (Fin (of_int l)) \<and> \<bar>(x - 1) * l\<bar> \<le> 2 ^ 53
      \<longrightarrow> fo_limit (parseQueryToFindOptions q r) = Some (Number (Fin (of_int l)))
        \<and> fo_offset (parseQueryToFindOptions q r) = Some (Number (Fin (of_int ((x - 1) * l)))))
   \<and> (q_page q = Some p \<and> p \<noteq> [] \<and> p \<noteq> ''-1'' \<and> \<not> js_ge (to_number p) (Fin 1)
      \<longrightarrow> fo_offset (parseQueryToFindOptions q r) = Some (Number (Fin 0)))
   \<and> (q_page q = None \<or> q_page q = Some [] \<or> q_page q = Some ''-1''
      \<longrightarrow> fo_offset (parseQueryToFindOptions q r) = None)
   \<and> (0 \<le> t \<and> t < 2 ^ 53 \<and> 1 \<le> m \<and> m \<le> 2 ^ 53 \<and> read_num (fo_limit fo) = Number (Fin (of_int m))
      \<longrightarrow> page_count (getPageMetaFromFindOptions (Fin (of_int t)) fo)
          = Fin (of_int \<lceil>(of_int t / of_int m :: rat)\<rceil>))"
proof (intro conjI impI)
  assume h: "q_page q = Some p \<and> to_number p = Fin (of_int x) \<and> 1 \<le> x \<and> x \<le> 2 ^ 53
      \<and> resolve_limit q r = Number (Fin (of_int l)) \<and> \<bar>(x - 1) * l\<bar> \<le> 2 ^ 53"
  then have "(1::rat) \<le> of_int x" by simp
  with h have op: "p \<noteq> [] \<and> p \<noteq> ''-1''" using page_ge_one_open by blast
  from h have ge: "js_ge (to_number p) (Fin 1)" by (simp add: js_ge_def)
  from h have "\<bar>x - 1\<bar> \<le> 2 ^ 53" by simp
  then have "round64 (of_int (x - 1)) = Fin (of_int (x - 1))" by (rule round64_of_int)
  then have sub: "js_sub (to_number p) (Fin 1) = Fin (of_int (x - 1))"
    using h by (simp add: js_sub_def)
  from h have "round64 (of_int ((x - 1) * l)) = Fin (of_int ((x - 1) * l))"
    by (intro round64_of_int) simp
  then have mul: "js_mul (Fin (of_int (x - 1))) (Fin (of_int l)) = Fin (of_int ((x - 1) * l))"
    by simp
  from h op limit_offset_open [of q p r]
  show "fo_limit (parseQueryToFindOptions q r) = Some (Number (Fin (of_int l)))" by simp
  from h have rl: "resolve_limit q r = Number (Fin (of_int l))" by simp
  from h op limit_offset_open [of q p r]
  have "fo_offset (parseQueryToFindOptions q r) =
       Some (Number (if js_ge (to_number p) (Fin 1)
                     then js_mul (js_sub (to_number p) (Fin 1)) (num_of (resolve_limit q r))
                     else Fin 0))"
    by blast
  then show "fo_offset (parseQueryToFindOptions q r) = Some (Number (Fin (of_int ((x - 1) * l))))"
    using ge by (simp only: sub rl mul num_of.simps if_True)
next
  assume "q_page q = Some p \<and> p \<noteq> [] \<and> p \<noteq> ''-1'' \<and> \<not> js_ge (to_number p) (Fin 1)"
  with limit_offset_open [of q p r]
  show "fo_offset (parseQueryToFindOptions q r) = Some (Number (Fin 0))" by simp
next
  assume "q_page q = None \<or> q_page q = Some [] \<or> q_page q = Some ''-1''"
  then have "given (q_page q) = None \<or> q_page q = Some ''-1''" by (auto simp: given_def)
  with limit_offset_closed [of q r]
  show "fo_offset (parseQueryToFindOptions q r) = None" by simp
next
  assume h: "0 \<le> t \<and> t < 2 ^ 53 \<and> 1 \<le> m \<and> m \<le> 2 ^ 53
             \<and> read_num (fo_limit fo) = Number (Fin (of_int m))"
  then have "js_ceil (js_div (Fin (of_int t)) (Fin (of_int m)))
               = Fin (of_int \<lceil>(of_int t / of_int m :: rat)\<rceil>)"
    by (intro js_div_ceil) simp_all
  with h show "page_count (getPageMetaFromFindOptions (Fin (of_int t)) fo)
          = Fin (of_int \<lceil>(of_int t / of_int m :: rat)\<rceil>)"
    by (simp add: getPageMetaFromFindOptions_def Let_def)
qed

text \<open>
  The request \<open>page=2&per_page=10\<close> over 25 rows: offset 10 and three pages; \<open>page=0\<close>:
  offset 0; no page: no offset.
\<close>

theorem pagination_arithmetic_witness:
  "fo_offset (parseQueryToFindOptions (page_query (Some ''2'') (Some ''10'')) posts) = Some (Number (Fin 10))
   \<and> fo_offset (parseQueryToFindOptions (page_query (Some ''0'') (Some ''10'')) posts) = Some (Number (Fin 0))
   \<and> fo_offset (parseQueryToFindOptions (page_query None (Some ''10'')) posts) = None
   \<and> page_count (getPageMetaFromFindOptions (Fin 25)
        (parseQueryToFindOptions (page_query (Some ''2'') (Some ''10'')) posts)) = Fin 3"
proof -
  let ?q = "page_query (Some ''2'') (Some ''10'')"
  let ?z = "page_query (Some ''0'') (Some ''10'')"
  let ?a = "page_query None (Some ''10'')"
  have n2: "to_number ''2'' = Fin 2" by (simp add: read_digits)
  have l2: "resolve_limit ?q posts = Number (Fin 10)"
    by (simp add: resolve_limit_def page_query_def read_digits truthy_num_def)
  have h1: "q_page ?q = Some ''2'' \<and> to_number ''2'' = Fin (of_int 2) \<and> (1::int) \<le> 2
            \<and> (2::int) \<le> 2 ^ 53
            \<and> resolve_limit ?q posts = Number (Fin (of_int 10)) \<and> \<bar>((2::int) - 1) * 10\<bar> \<le> 2 ^ 53"
    using n2 l2 by (simp add: page_query_def)
  have n0: "\<not> js_ge (to_number ''0'') (Fin 1)" by (simp add: read_digits js_ge_def)
  have h2: "q_page ?z = Some ''0'' \<and> ''0'' \<noteq> [] \<and> ''0'' \<noteq> ''-1'' \<and> \<not> js_ge (to_number ''0'') (Fin 1)"
    using n0 by (simp add: page_query_def)
  have h3: "q_page ?a = None \<or> q_page ?a = Some [] \<or> q_page ?a = Some ''-1''"
    by (simp add: page_query_def)
  from h1 pagination_arithmetic [of ?q "''2''" 2 posts 10]
  have c1: "fo_limit (parseQueryToFindOptions ?q posts) = Some (Number (Fin (of_int 10)))
            \<and> fo_offset (parseQueryToFindOptions ?q posts) = Some (Number (Fin (of_int ((2 - 1) * 10))))"
    by blast
  from h2 pagination_arithmetic [of ?z "''0''" _ posts]
  have c2: "fo_offset (parseQueryToFindOptions ?z posts) = Some (Number (Fin 0))"
    by blast
  from h3 pagination_arithmetic [of ?a _ _ posts]
  have c3: "fo_offset (parseQueryToFindOptions ?a posts) = None"
    by blast
  have h4: "(0::int) \<le> 25 \<and> (25::int) < 2 ^ 53 \<and> (1::int) \<le> 10 \<and> (10::int) \<le> 2 ^ 53
            \<and> read_num (fo_limit (parseQueryToFindOptions ?q posts)) = Number (Fin (of_int 10))"
    using c1 by (simp add: read_num_def)
  from h4 pagination_arithmetic [of _ _ _ _ _ 25 10 "parseQueryToFindOptions ?q posts"]
  have c4: "page_count (getPageMetaFromFindOptions (Fin (of_int 25)) (parseQueryToFindOptions ?q posts))
            = Fin (of_int \<lceil>(of_int 25 / of_int 10 :: rat)\<rceil>)"
    by blast
  have "\<lceil>(25::rat) / 10\<rceil> = 3" by (rule ceiling_unique) simp_all
  then have c5: "Fin (of_int \<lceil>(of_int 25 / of_int 10 :: rat)\<rceil>) = Fin 3" by simp
  have r1: "fo_offset (parseQueryToFindOptions ?q posts) = Some (Number (Fin 10))"
    using c1 by simp
  have r4: "page_count (getPageMetaFromFindOptions (Fin 25) (parseQueryToFindOptions ?q posts)) = Fin 3"
    using c4 c5 by simp
  show ?thesis using r1 c2 c3 r4 by (intro conjI)
qed

text \<open>
  The claim as stated fails where the doubles round and where the page is \<open>-1\<close>: the
  total 11258999068426246 under the limit 5 has the page count 2251799813685249, one less
  than the ceiling of the quotient; the page \<open>9007199254740992\<close> with \<open>per_page=10\<close> has the
  offset 90071992547409904, not 90071992547409910; and the page \<open>-1\<close>, which is below one,
  has no offset, not the offset zero. A page that is no integer is rounded as it is read:
  \<open>page=1.1\<close> with \<open>per_page=10\<close> has an offset a little above one
  (\<open>fractional_page_offset\<close>).
\<close>

theorem pagination_counterexample:
  "page_count (getPageMetaFromFindOptions (Fin 11258999068426246)
       (no_find_options\<lparr>fo_limit := Some (Number (Fin 5))\<rparr>))
     = Fin 2251799813685249
   \<and> \<lceil>(11258999068426246 :: rat) / 5\<rceil> = 2251799813685250
   \<and> to_number ''9007199254740992'' = Fin 9007199254740992
   \<and> resolve_limit (page_query (Some ''9007199254740992'') (Some ''10'')) posts = Number (Fin 10)
   \<and> fo_offset (parseQueryToFindOptions (page_query (Some ''9007199254740992'') (Some ''10'')) posts)
     = Some (Number (Fin 90071992547409904))
   \<and> (9007199254740992 - 1) * 10 = (90071992547409910 :: rat)
   \<and> \<not> js_ge (to_number ''-1'') (Fin 1)
   \<and> fo_offset (parseQueryToFindOptions (page_query (Some ''-1'') (Some ''10'')) posts) = None"
proof -
  let ?q = "page_query (Some ''9007199254740992'') (Some ''10'')"
  have a: "page_count (getPageMetaFromFindOptions (Fin 11258999068426246)
       (no_find_options\<lparr>fo_limit := Some (Number (Fin 5))\<rparr>)) = Fin 2251799813685249"
    using big_quotient
    by (simp add: getPageMetaFromFindOptions_def Let_def read_num_def no_find_options_def)
  have b: "\<lceil>(11258999068426246 :: rat) / 5\<rceil> = 2251799813685250"
    by (rule ceiling_unique) simp_all
  have c: "to_number ''9007199254740992'' = Fin 9007199254740992" by (simp add: read_digits)
  have d: "resolve_limit ?q posts = Number (Fin 10)"
    by (simp add: resolve_limit_def page_query_def read_digits truthy_num_def)
  have "q_page ?q = Some ''9007199254740992''" by (simp add: page_query_def)
  from limit_offset_open [OF this, of posts]
  have e: "fo_offset (parseQueryToFindOptions ?q posts) = Some (Number (Fin 90071992547409904))"
    using big_product by (simp add: c d js_ge_def js_sub_def)
  have f: "(9007199254740992 - 1) * 10 = (90071992547409910 :: rat)" by simp
  have g: "\<not> js_ge (to_number ''-1'') (Fin 1)" by (simp add: to_number_minus_one js_ge_def)
  have "q_page (page_query (Some ''-1'') (Some ''10'')) = Some ''-1''" by (simp add: page_query_def)
  then have h: "fo_offset (parseQueryToFindOptions (page_query (Some ''-1'') (Some ''10'')) posts) = None"
    using limit_offset_closed [of "page_query (Some ''-1'') (Some ''10'')" posts] by simp
  show ?thesis using a b c d e f g h by (intro conjI)
qed

text \<open>
  The relation handler returns the value that the populated entity holds under the name
  of the relation, and it does not read the fields of the resource: whether that value is
  an array or an object is for the entity manager to decide.
\<close>

lemma relation_fetch_ignores_fields:
  "fetch_relations_handler reparse (r\<lparr>r_fields := fs\<rparr>) mgr rq = fetch_relations_handler reparse r mgr rq"
  by (simp add: fetch_relations_handler_def)




text \<open>
  Claim C8: \<open>getPageMetaFromFindOptions\<close> divides by the limit without a guard. With no
  limit, \<open>per_page\<close> is \<open>null\<close> and \<open>page_count\<close> is \<open>NaN\<close>; for the find options of any
  query that leaves the limit undefined, and so for any query without a \<open>page\<close>
  parameter, \<open>page\<close> is \<open>null\<close> as well.
\<close>

theorem page_count_unguarded:
  "(read_num (fo_limit fo) = Undefined
      \<longrightarrow> per_page (getPageMetaFromFindOptions t fo) = None
        \<and> page_count (getPageMetaFromFindOptions t fo) = NaN)
   \<and> (read_num (fo_limit (parseQueryToFindOptions q r)) = Undefined
      \<longrightarrow> getPageMetaFromFindOptions t (parseQueryToFindOptions q r)
          = \<lparr>total_count = t, page = None, per_page = None, page_count = NaN\<rparr>)
   \<and> (q_page q = None
      \<longrightarrow> getPageMetaFromFindOptions t (parseQueryToFindOptions q r)
          = \<lparr>total_count = t, page = None, per_page = None, page_count = NaN\<rparr>)"
proof -
  have div_nan: "js_div t NaN = NaN" by (cases t) simp_all
  have a: "per_page (getPageMetaFromFindOptions t fo) = None
        \<and> page_count (getPageMetaFromFindOptions t fo) = NaN"
    if "read_num (fo_limit fo) = Undefined" for fo
    using that by (simp add: getPageMetaFromFindOptions_def Let_def div_nan)
  have b: "getPageMetaFromFindOptions t (parseQueryToFindOptions q r)
          = \<lparr>total_count = t, page = None, per_page = None, page_count = NaN\<rparr>"
    if u: "read_num (fo_limit (parseQueryToFindOptions q r)) = Undefined"
    using u parsed_offset_falsy [OF u]
    by (simp add: getPageMetaFromFindOptions_def Let_def div_nan)
  have c: "read_num (fo_limit (parseQueryToFindOptions q r)) = Undefined" if "q_page q = None"
    using that limit_offset_closed [of q r] by (simp add: given_def read_num_def)
  from a b c show ?thesis by blast
qed

theorem page_count_unguarded_witness:
  "getPageMetaFromFindOptions (Fin 25) (parseQueryToFindOptions (page_query None None) posts)
     = \<lparr>total_count = Fin 25, page = None, per_page = None, page_count = NaN\<rparr>
   \<and> per_page (getPageMetaFromFindOptions (Fin 25) no_find_options) = None
   \<and> page_count (getPageMetaFromFindOptions (Fin 25) no_find_options) = NaN"
proof -
  have h: "q_page (page_query None None) = None" by (simp add: page_query_def)
  have u: "read_num (fo_limit no_find_options) = Undefined"
    by (simp add: no_find_options_def read_num_def)
  from h u page_count_unguarded [of no_find_options "Fin 25" "page_query None None" posts]
  show ?thesis by blast
qed

text \<open>
  Claim C9: for every resource, the routes \<open>Insert\<close> and \<open>Insert multiple\<close> have the verb
  POST and the same path, the API path followed by the plural slug.
\<close>

theorem insert_routes_same_endpoint:
  assumes "i < length resources"
  shows "route_name (plugin_routes reparse resources apiPath ! (7 * i))
           = ''Insert '' @ slugSingular (resources ! i)
       \<and> route_name (plugin_routes reparse resources apiPath ! (7 * i + 1))
           = ''Insert multiple '' @ slugPlural (resources ! i)
       \<and> route_type (plugin_routes reparse resources apiPath ! (7 * i)) = POST
       \<and> route_type (plugin_routes reparse resources apiPath ! (7 * i + 1)) = POST
       \<and> route_path (plugin_routes reparse resources apiPath ! (7 * i))
           = ''/'' @ apiPath @ ''/'' @ slugPlural (resources ! i)
       \<and> route_path (plugin_routes reparse resources apiPath ! (7 * i + 1))
           = ''/'' @ apiPath @ ''/'' @ slugPlural (resources ! i)"
proof -
  let ?f = "resource_routes reparse resources (getApiPath apiPath)"
  have len: "\<And>x. length (?f x) = 7" by (rule length_resource_routes)
  have a: "plugin_routes reparse resources apiPath ! (7 * i) = ?f (resources ! i) ! 0"
    using concat_blocks [of ?f 7 i resources 0, OF len assms]
    by (simp add: plugin_routes_def extendRoutes_def)
  have b: "plugin_routes reparse resources apiPath ! (7 * i + 1) = ?f (resources ! i) ! 1"
    using concat_blocks [of ?f 7 i resources 1, OF len assms]
    by (simp add: plugin_routes_def extendRoutes_def)
  show ?thesis unfolding a b by (simp add: resource_routes_def Let_def getApiPath_def)
qed

theorem insert_routes_same_endpoint_witness:
  "(0::nat) < length [posts]
   \<and> route_type (plugin_routes plain_qs [posts] ''api'' ! 0) = POST
   \<and> route_type (plugin_routes plain_qs [posts] ''api'' ! 1) = POST
   \<and> route_path (plugin_routes plain_qs [posts] ''api'' ! 0) = ''/api/posts''
   \<and> route_path (plugin_routes plain_qs [posts] ''api'' ! 1) = ''/api/posts''"
proof -
  have h: "(0::nat) < length [posts]" by simp
  show ?thesis
    using h insert_routes_same_endpoint [OF h, of plain_qs "''api''"]
    by (simp add: posts_def)
qed

text \<open>
  Claim C10: when the \<open>page\<close> parameter is absent or is \<open>-1\<close>, neither the limit nor the
  offset is set, whatever \<open>per_page\<close> is.
\<close>

theorem per_page_alone:
  "q_page q = None \<or> q_page q = Some ''-1'' \<Longrightarrow>
     fo_limit (parseQueryToFindOptions q r) = None \<and> fo_offset (parseQueryToFindOptions q r) = None"
  using limit_offset_closed [of q r] by (auto simp: given_def)

theorem per_page_alone_witness:
  "q_page (page_query None (Some ''10'')) = None
   \<and> q_per_page (page_query None (Some ''10'')) = Some ''10''
   \<and> fo_limit (parseQueryToFindOptions (page_query None (Some ''10'')) posts) = None
   \<and> fo_offset (parseQueryToFindOptions (page_query None (Some ''10'')) posts) = None"
proof -
  have h: "q_page (page_query None (Some ''10'')) = None
           \<or> q_page (page_query None (Some ''10'')) = Some ''-1''"
    by (simp add: page_query_def)
  from per_page_alone [OF h, of posts] show ?thesis by (simp add: page_query_def)
qed

end
